theory Spec2Isabelle
  imports Main "HOL-Library.Char_ord" "HOL-Library.List_Lexorder"
begin

section \<open>UnblockedHub: the dual-backend game store and its change reconciliation\<close>

text \<open>
  The development embeds the data-synchronisation core of the application: the
  browser-local store \<open>localStorageService\<close> and the component \<open>App\<close> (both in the
  application's main component file) and the hosted store \<open>gameService\<close> of
  \<open>src/lib/supabase.ts\<close>.

  Modelling decisions, all of them about the platform and not about the repository's code:
  \<^item> \<open>Date.now()\<close> is a natural number of milliseconds since the epoch. The system clock is
    an oracle \<open>clock\<close> (the value of the k-th reading) together with the number of readings
    made so far; nothing is assumed about it, not even that it advances.
  \<^item> \<open>localStorage\<close> is the pair of keys the store uses. \<open>JSON.parse\<close> after
    \<open>JSON.stringify\<close> is the identity on a list of records of strings, so the key
    \<open>unblockedGames\<close> holds a list of records, \<open>None\<close> when the key is absent.
    \<open>JSON.parse\<close> throws on a string that is not JSON, and \<open>setItem\<close> throws when the
    storage refuses the write (quota exceeded, storage disabled).
  \<^item> The \<open>async\<close> functions run to completion or to the exception that rejects their
    promise; one call is one step.
  \<^item> The hosted backend is outside the repository. A request to it resolves to an answer,
    the \<open>{data, error}\<close> object the code destructures, and does not reject; the answer is a
    parameter.
  \<^item> The console is the list of lines a function writes with \<open>console.error\<close>.
\<close>

subsection \<open>Records\<close>

text \<open>\<open>Omit<Game, 'id' | 'created_at' | 'updated_at'>\<close> and \<open>interface Game\<close>.\<close>

record GameFields =
  title :: string
  description :: string
  category :: string
  color :: string
  url :: string

record Game = GameFields +
  id' :: string
  created_at :: string
  updated_at :: string

text \<open>\<open>Partial<Omit<Game, 'id' | 'created_at' | 'updated_at'>>\<close>: an absent key is \<open>None\<close>.\<close>

record GameUpdates =
  title_upd :: "string option"
  description_upd :: "string option"
  category_upd :: "string option"
  color_upd :: "string option"
  url_upd :: "string option"

subsection \<open>The platform: decimal rendering of numbers, ISO-8601 rendering of instants\<close>

definition digit_char :: "nat \<Rightarrow> char" where
  "digit_char n = ''0123456789'' ! (n mod 10)"

definition is_digit :: "char \<Rightarrow> bool" where
  "is_digit c = (c \<in> set ''0123456789'')"

text \<open>
  \<open>Number.prototype.toString\<close> on a non-negative integer: its decimal digits. (The
  exponent notation starts at \<open>1e21\<close>, far above any reading of the clock.)
\<close>

function toString :: "nat \<Rightarrow> string" where
  "toString n = (if n < 10 then [digit_char n] else toString (n div 10) @ [digit_char n])"
  by pat_completeness auto
termination
  by (relation "measure (\<lambda>n. n)") auto

declare toString.simps [simp del]

definition pad2 :: "nat \<Rightarrow> string" where
  "pad2 n = [digit_char (n div 10), digit_char n]"

definition pad3 :: "nat \<Rightarrow> string" where
  "pad3 n = [digit_char (n div 100), digit_char (n div 10), digit_char n]"

definition pad4 :: "nat \<Rightarrow> string" where
  "pad4 n = [digit_char (n div 1000), digit_char (n div 100), digit_char (n div 10), digit_char n]"

definition pad6 :: "nat \<Rightarrow> string" where
  "pad6 n = [digit_char (n div 100000), digit_char (n div 10000), digit_char (n div 1000),
             digit_char (n div 100), digit_char (n div 10), digit_char n]"

text \<open>
  The civil date (year, month, day) of a day number counted from 1970-01-01, in the
  proleptic Gregorian calendar. Days are counted in eras of 400 years (146097 days) that
  start on 1 March, so that the leap day is the last day of a year: \<open>doe\<close> is the day of
  the era, \<open>yoe\<close> the year of the era, \<open>doy\<close> the day of that year, \<open>mp\<close> the month
  counted from March.
\<close>

definition year_of_era :: "nat \<Rightarrow> nat" where
  "year_of_era doe = (doe - doe div 1460 + doe div 36524 - doe div 146096) div 365"

definition day_of_year :: "nat \<Rightarrow> nat \<Rightarrow> nat" where
  "day_of_year doe yoe = doe - (365 * yoe + yoe div 4 - yoe div 100)"

definition month_and_day :: "nat \<Rightarrow> nat \<times> nat" where
  "month_and_day doy =
     (let mp = (5 * doy + 2) div 153
      in (if mp < 10 then mp + 3 else mp - 9, doy - (153 * mp + 2) div 5 + 1))"

definition civil_from_days :: "nat \<Rightarrow> nat \<times> nat \<times> nat" where
  "civil_from_days days =
     (let z = days + 719468;
          yoe = year_of_era (z mod 146097);
          (m, d) = month_and_day (day_of_year (z mod 146097) yoe)
      in (yoe + (z div 146097) * 400 + (if m \<le> 2 then 1 else 0), m, d))"

text \<open>
  \<open>Date.prototype.toISOString\<close> of the instant \<open>ms\<close>: \<open>YYYY-MM-DDTHH:mm:ss.sssZ\<close>, and the
  expanded year \<open>+YYYYYY\<close> beyond the year 9999.
\<close>

definition toISOString :: "nat \<Rightarrow> string" where
  "toISOString ms =
     (let (y, m, d) = civil_from_days (ms div 86400000);
          r = ms mod 86400000
      in (if y \<le> 9999 then pad4 y else CHR ''+'' # pad6 y)
         @ ''-'' @ pad2 m @ ''-'' @ pad2 d
         @ ''T'' @ pad2 (r div 3600000) @ '':'' @ pad2 (r div 60000 mod 60)
         @ '':'' @ pad2 (r div 1000 mod 60) @ ''.'' @ pad3 (r mod 1000) @ ''Z'')"

subsection \<open>The browser: local storage and the system clock\<close>

text \<open>What the platform throws into the store's functions, which catch nothing.\<close>

datatype exn = SyntaxError | QuotaExceededError

text \<open>
  The string under the key \<open>unblockedGames\<close>: the serialisation of a collection, as
  \<open>JSON.stringify\<close> writes it, or a string that \<open>JSON.parse\<close> rejects. (A string that
  parses to something else than an array of records is never written by the store and is
  not modelled.)
\<close>

datatype item = Serialized "Game list" | Malformed

text \<open>
  The two keys, the clock, and the storage's quota: \<open>refuses k\<close> tells whether the k-th
  call of \<open>setItem\<close> throws, \<open>writes\<close> counts the calls made so far. Nothing is assumed
  about either oracle.
\<close>

record browser =
  unblockedGames :: "item option"
  gameUpdate :: "string option"
  clock :: "nat \<Rightarrow> nat"
  reads :: nat
  refuses :: "nat \<Rightarrow> bool"
  writes :: nat

text \<open>One reading of the clock (\<open>Date.now()\<close>, \<open>new Date()\<close>).\<close>

definition Date_now :: "browser \<Rightarrow> nat \<times> browser" where
  "Date_now b = (clock b (reads b), b\<lparr>reads := Suc (reads b)\<rparr>)"

definition JSON_parse :: "item \<Rightarrow> exn + Game list" where
  "JSON_parse stored = (case stored of Serialized games \<Rightarrow> Inr games | Malformed \<Rightarrow> Inl SyntaxError)"

text \<open>
  \<open>localStorage.setItem\<close> on each of the two keys: it throws and stores nothing when the
  storage refuses the write.
\<close>

definition setItem_unblockedGames :: "Game list \<Rightarrow> browser \<Rightarrow> (exn + unit) \<times> browser" where
  "setItem_unblockedGames games b =
     (if refuses b (writes b) then (Inl QuotaExceededError, b\<lparr>writes := Suc (writes b)\<rparr>)
      else (Inr (), b\<lparr>unblockedGames := Some (Serialized games), writes := Suc (writes b)\<rparr>))"

definition setItem_gameUpdate :: "string \<Rightarrow> browser \<Rightarrow> (exn + unit) \<times> browser" where
  "setItem_gameUpdate v b =
     (if refuses b (writes b) then (Inl QuotaExceededError, b\<lparr>writes := Suc (writes b)\<rparr>)
      else (Inr (), b\<lparr>gameUpdate := Some v, writes := Suc (writes b)\<rparr>))"

subsection \<open>The local store \<open>localStorageService\<close>\<close>

text \<open>
  Each function returns its outcome and the browser it leaves behind. \<open>Inl\<close> is the
  exception that escapes the function, that is, the rejection of the promise it returns;
  \<open>Inr\<close> is the value the promise resolves to.
\<close>

definition localStorageService_getGames :: "browser \<Rightarrow> exn + Game list" where
  "localStorageService_getGames b =
     (case unblockedGames b of None \<Rightarrow> Inr [] | Some stored \<Rightarrow> JSON_parse stored)"

definition localStorageService_addGame ::
  "browser \<Rightarrow> GameFields \<Rightarrow> (exn + Game option) \<times> browser" where
  "localStorageService_addGame b game =
     (case localStorageService_getGames b of
        Inl e \<Rightarrow> (Inl e, b)
      | Inr games \<Rightarrow>
          (let (t1, b1) = Date_now b;
               (t2, b2) = Date_now b1;
               (t3, b3) = Date_now b2;
               newGame = \<lparr>title = title game, description = description game,
                          category = category game, color = color game, url = url game,
                          id' = toString t1, created_at = toISOString t2,
                          updated_at = toISOString t3\<rparr>
           in case setItem_unblockedGames (newGame # games) b3 of
                (Inl e, b4) \<Rightarrow> (Inl e, b4)
              | (Inr u, b4) \<Rightarrow>
                  (let (t4, b5) = Date_now b4
                   in case setItem_gameUpdate (toString t4) b5 of
                        (Inl e, b6) \<Rightarrow> (Inl e, b6)
                      | (Inr u', b6) \<Rightarrow> (Inr (Some newGame), b6))))"

text \<open>\<open>Array.prototype.findIndex\<close>; the result \<open>-1\<close> is \<open>None\<close>.\<close>

fun findIndex :: "('a \<Rightarrow> bool) \<Rightarrow> 'a list \<Rightarrow> nat option" where
  "findIndex P [] = None"
| "findIndex P (x # xs) = (if P x then Some 0 else map_option Suc (findIndex P xs))"

text \<open>The object \<open>{...g, ...updates, updated_at: stamp}\<close>.\<close>

definition spread :: "Game \<Rightarrow> GameUpdates \<Rightarrow> string \<Rightarrow> Game" where
  "spread g updates stamp =
     g\<lparr>title := (case title_upd updates of None \<Rightarrow> title g | Some v \<Rightarrow> v),
       description := (case description_upd updates of None \<Rightarrow> description g | Some v \<Rightarrow> v),
       category := (case category_upd updates of None \<Rightarrow> category g | Some v \<Rightarrow> v),
       color := (case color_upd updates of None \<Rightarrow> color g | Some v \<Rightarrow> v),
       url := (case url_upd updates of None \<Rightarrow> url g | Some v \<Rightarrow> v),
       updated_at := stamp\<rparr>"

definition localStorageService_updateGame ::
  "browser \<Rightarrow> string \<Rightarrow> GameUpdates \<Rightarrow> (exn + Game option) \<times> browser" where
  "localStorageService_updateGame b i updates =
     (case localStorageService_getGames b of
        Inl e \<Rightarrow> (Inl e, b)
      | Inr games \<Rightarrow>
          (case findIndex (\<lambda>g. id' g = i) games of
             None \<Rightarrow> (Inr None, b)
           | Some gameIndex \<Rightarrow>
               (let (t1, b1) = Date_now b;
                    updatedGame = spread (games ! gameIndex) updates (toISOString t1)
                in case setItem_unblockedGames (games[gameIndex := updatedGame]) b1 of
                     (Inl e, b2) \<Rightarrow> (Inl e, b2)
                   | (Inr u, b2) \<Rightarrow>
                       (let (t2, b3) = Date_now b2
                        in case setItem_gameUpdate (toString t2) b3 of
                             (Inl e, b4) \<Rightarrow> (Inl e, b4)
                           | (Inr u', b4) \<Rightarrow> (Inr (Some updatedGame), b4)))))"

definition localStorageService_deleteGame :: "browser \<Rightarrow> string \<Rightarrow> (exn + bool) \<times> browser" where
  "localStorageService_deleteGame b i =
     (case localStorageService_getGames b of
        Inl e \<Rightarrow> (Inl e, b)
      | Inr games \<Rightarrow>
          (let filteredGames = filter (\<lambda>g. id' g \<noteq> i) games
           in case setItem_unblockedGames filteredGames b of
                (Inl e, b1) \<Rightarrow> (Inl e, b1)
              | (Inr u, b1) \<Rightarrow>
                  (let (t, b2) = Date_now b1
                   in case setItem_gameUpdate (toString t) b2 of
                        (Inl e, b3) \<Rightarrow> (Inl e, b3)
                      | (Inr u', b3) \<Rightarrow> (Inr True, b3))))"

subsection \<open>The hosted store \<open>gameService\<close>\<close>

text \<open>
  What a request to the hosted table resolves to: the object \<open>{data, error}\<close>, each part
  possibly \<open>null\<close>.
\<close>

record 'a response =
  data :: "'a option"
  error :: "string option"

text \<open>
  The answers of the hosted backend to the four requests the client sends: the ordered
  select, the insert of a field set, the update of the row with an id by a payload (the
  supplied fields and the \<open>updated_at\<close> stamp), and the delete of the row with an id.
\<close>

record supabase =
  select_games :: "Game list response"
  insert_game :: "GameFields \<Rightarrow> Game response"
  update_game :: "string \<Rightarrow> GameUpdates \<Rightarrow> string \<Rightarrow> Game response"
  delete_game :: "string \<Rightarrow> unit response"

text \<open>Each function returns the lines it writes with \<open>console.error\<close> and its result.\<close>

type_synonym console = "string list"

definition gameService_getGames :: "supabase \<Rightarrow> console \<times> Game list" where
  "gameService_getGames sb =
     (let r = select_games sb
      in case error r of
           Some e \<Rightarrow> ([''Error fetching games: '' @ e], [])
         | None \<Rightarrow> ([], case data r of None \<Rightarrow> [] | Some rows \<Rightarrow> rows))"

definition gameService_addGame :: "supabase \<Rightarrow> GameFields \<Rightarrow> console \<times> Game option" where
  "gameService_addGame sb game =
     (let r = insert_game sb game
      in case error r of
           Some e \<Rightarrow> ([''Error adding game: '' @ e], None)
         | None \<Rightarrow> ([], data r))"

definition gameService_updateGame ::
  "supabase \<Rightarrow> browser \<Rightarrow> string \<Rightarrow> GameUpdates \<Rightarrow> (console \<times> Game option) \<times> browser" where
  "gameService_updateGame sb b i updates =
     (let (t, b1) = Date_now b;
          r = update_game sb i updates (toISOString t)
      in (case error r of
            Some e \<Rightarrow> ([''Error updating game: '' @ e], None)
          | None \<Rightarrow> ([], data r), b1))"

definition gameService_deleteGame :: "supabase \<Rightarrow> string \<Rightarrow> console \<times> bool" where
  "gameService_deleteGame sb i =
     (let r = delete_game sb i
      in case error r of
           Some e \<Rightarrow> ([''Error deleting game: '' @ e], False)
         | None \<Rightarrow> ([], True))"

subsection \<open>Loading the module \<open>lib/supabase\<close>\<close>

record import_meta_env =
  VITE_SUPABASE_URL :: "string option"
  VITE_SUPABASE_ANON_KEY :: "string option"

text \<open>A value of JavaScript type string-or-undefined is falsy when undefined or empty.\<close>

definition falsy :: "string option \<Rightarrow> bool" where
  "falsy v = (case v of None \<Rightarrow> True | Some str \<Rightarrow> str = [])"

text \<open>
  Evaluating the module: it throws when a variable is missing; otherwise it calls the
  library's \<open>createClient\<close>, a parameter that tells whether the call returns a client.
  \<open>Inl\<close> is the thrown error.
\<close>

definition import_supabase :: "import_meta_env \<Rightarrow> (string \<Rightarrow> string \<Rightarrow> bool) \<Rightarrow> string + unit" where
  "import_supabase env createClient =
     (let supabaseUrl = VITE_SUPABASE_URL env;
          supabaseAnonKey = VITE_SUPABASE_ANON_KEY env
      in if falsy supabaseUrl \<or> falsy supabaseAnonKey
         then Inl ''Missing Supabase environment variables''
         else (case (supabaseUrl, supabaseAnonKey) of
                 (Some u, Some k) \<Rightarrow> if createClient u k then Inr () else Inl ''createClient''
               | _ \<Rightarrow> Inl ''Missing Supabase environment variables''))"

subsection \<open>The component \<open>App\<close>\<close>

datatype service = SupabaseService | LocalStorageService

text \<open>
  The component's state that the store logic reads or writes. \<open>subscription\<close> is the
  service on which the subscription effect has a callback registered, \<open>None\<close> when there
  is none.
\<close>

record App =
  gameService :: "service option"
  isSupabaseConnected :: bool
  games :: "Game list"
  showNotification :: bool
  isOnline :: bool
  isLoading :: bool
  lastGameCount :: nat
  subscription :: "service option"

definition initial_App :: App where
  "initial_App = \<lparr>gameService = None, isSupabaseConnected = False, games = [],
     showNotification = False, isOnline = True, isLoading = True, lastGameCount = 0,
     subscription = None\<rparr>"

text \<open>\<open>gameService || localStorageService\<close>\<close>

definition getGameService :: "App \<Rightarrow> service" where
  "getGameService s = (case gameService s of None \<Rightarrow> LocalStorageService | Some svc \<Rightarrow> svc)"

text \<open>
  The initialisation. An exception of the module's load is caught and leads to the local
  store; an exception of the local store's first list, thrown inside the \<open>catch\<close> block,
  escapes, and the statements after it are not run.
\<close>

definition initializeSupabase ::
  "import_meta_env \<Rightarrow> (string \<Rightarrow> string \<Rightarrow> bool) \<Rightarrow> supabase \<Rightarrow> browser \<Rightarrow> App \<Rightarrow> App" where
  "initializeSupabase env createClient sb b s =
     (let s1 = s\<lparr>isLoading := True\<rparr>
      in case import_supabase env createClient of
           Inr _ \<Rightarrow>
             (let s2 = s1\<lparr>gameService := Some SupabaseService, isSupabaseConnected := True\<rparr>;
                  fetchedGames = snd (gameService_getGames sb)
              in s2\<lparr>games := fetchedGames, lastGameCount := length fetchedGames,
                     isLoading := False\<rparr>)
         | Inl _ \<Rightarrow>
             (let s2 = s1\<lparr>isSupabaseConnected := False\<rparr>
              in case localStorageService_getGames b of
                   Inr fetchedGames \<Rightarrow>
                     s2\<lparr>games := fetchedGames, lastGameCount := length fetchedGames,
                        isLoading := False\<rparr>
                 | Inl e \<Rightarrow> s2))"

text \<open>The callback the subscription effect passes to \<open>subscribeToChanges\<close>.\<close>

definition subscription_callback :: "Game list \<Rightarrow> App \<Rightarrow> App" where
  "subscription_callback updatedGames s =
     (let prevGames = games s;
          s1 = (if length prevGames > 0 \<and> length updatedGames > length prevGames
                then s\<lparr>showNotification := True\<rparr> else s)
      in s1\<lparr>lastGameCount := length updatedGames, games := updatedGames\<rparr>)"

text \<open>
  The subscription effect. React runs it after the first render and after each render in
  which \<open>gameService\<close> or \<open>isSupabaseConnected\<close> has changed, after the cleanup the
  previous run returned.
\<close>

definition subscription_effect :: "App \<Rightarrow> App" where
  "subscription_effect s =
     (let s1 = s\<lparr>subscription := None\<rparr>
      in if gameService s = None \<and> \<not> isSupabaseConnected s then s1
         else s1\<lparr>subscription := Some (getGameService s)\<rparr>)"

text \<open>
  Mounting the component: the subscription effect of the first render, the
  initialisation, and the subscription effect of the render that follows it. (When the
  initialisation has changed neither \<open>gameService\<close> nor \<open>isSupabaseConnected\<close>, React does
  not run the effect again; running it returns at the guard, as the first run did.)
\<close>

definition mount ::
  "import_meta_env \<Rightarrow> (string \<Rightarrow> string \<Rightarrow> bool) \<Rightarrow> supabase \<Rightarrow> browser \<Rightarrow> App" where
  "mount env createClient sb b =
     subscription_effect (initializeSupabase env createClient sb b (subscription_effect initial_App))"

subsection \<open>The handlers of \<open>App\<close>\<close>

text \<open>The form's fields as the update the edit handler sends: every key is present.\<close>

definition all_fields :: "GameFields \<Rightarrow> GameUpdates" where
  "all_fields g = \<lparr>title_upd = Some (title g), description_upd = Some (description g),
     category_upd = Some (category g), color_upd = Some (color g), url_upd = Some (url g)\<rparr>"

text \<open>
  The handlers await the store's promise and catch nothing (the reload handler apart):
  when the promise rejects, the rest of the handler is not run and the component's state
  stays as it is.
\<close>

definition handleAddGame :: "supabase \<Rightarrow> GameFields \<Rightarrow> App \<times> browser \<Rightarrow> App \<times> browser" where
  "handleAddGame sb newGame st =
     (let (s, b) = st
      in if title newGame \<noteq> [] \<and> url newGame \<noteq> [] then
           (let (outcome, b') =
                  (case getGameService s of
                     SupabaseService \<Rightarrow> (Inr (snd (gameService_addGame sb newGame)), b)
                   | LocalStorageService \<Rightarrow> localStorageService_addGame b newGame)
            in case outcome of
                 Inl e \<Rightarrow> (s, b')
               | Inr addedGame \<Rightarrow>
                   (case addedGame of
                      Some g \<Rightarrow>
                        (let newGames = g # games s
                         in (s\<lparr>lastGameCount := length newGames, games := newGames\<rparr>, b'))
                    | None \<Rightarrow> (s, b')))
         else (s, b))"

definition handleUpdateGame ::
  "supabase \<Rightarrow> Game option \<Rightarrow> GameFields \<Rightarrow> App \<times> browser \<Rightarrow> App \<times> browser" where
  "handleUpdateGame sb editingGame newGame st =
     (let (s, b) = st
      in case editingGame of
           None \<Rightarrow> (s, b)
         | Some e \<Rightarrow>
             if title newGame \<noteq> [] \<and> url newGame \<noteq> [] then
               (let (outcome, b') =
                      (case getGameService s of
                         SupabaseService \<Rightarrow>
                           (let (r, b1) = gameService_updateGame sb b (id' e) (all_fields newGame)
                            in (Inr (snd r), b1))
                       | LocalStorageService \<Rightarrow>
                           localStorageService_updateGame b (id' e) (all_fields newGame))
                in case outcome of
                     Inl x \<Rightarrow> (s, b')
                   | Inr updatedGame \<Rightarrow>
                       (case updatedGame of
                          Some u \<Rightarrow>
                            (let newGames =
                                   map (\<lambda>game. if id' game = id' e then u else game) (games s)
                             in (s\<lparr>lastGameCount := length newGames, games := newGames\<rparr>, b'))
                        | None \<Rightarrow> (s, b')))
             else (s, b))"

text \<open>\<open>confirmed\<close> is the answer to the confirmation dialog.\<close>

definition handleDeleteGame :: "supabase \<Rightarrow> bool \<Rightarrow> string \<Rightarrow> App \<times> browser \<Rightarrow> App \<times> browser" where
  "handleDeleteGame sb confirmed gameId st =
     (let (s, b) = st
      in if confirmed then
           (let (outcome, b') =
                  (case getGameService s of
                     SupabaseService \<Rightarrow> (Inr (snd (gameService_deleteGame sb gameId)), b)
                   | LocalStorageService \<Rightarrow> localStorageService_deleteGame b gameId)
            in case outcome of
                 Inl e \<Rightarrow> (s, b')
               | Inr success \<Rightarrow>
                   if success then
                     (let newGames = filter (\<lambda>game. id' game \<noteq> gameId) (games s)
                      in (s\<lparr>lastGameCount := length newGames, games := newGames\<rparr>, b'))
                   else (s, b'))
         else (s, b))"

text \<open>
  The reload handler has \<open>try\<close>, \<open>catch\<close> and \<open>finally\<close>: an exception of the list is
  logged, and the statements of \<open>finally\<close> and after it run in either case.
\<close>

definition handleReloadGames :: "supabase \<Rightarrow> App \<times> browser \<Rightarrow> App \<times> browser" where
  "handleReloadGames sb st =
     (let (s, b) = st;
          s1 = s\<lparr>isLoading := True\<rparr>;
          outcome =
            (case getGameService s of
               SupabaseService \<Rightarrow> Inr (snd (gameService_getGames sb))
             | LocalStorageService \<Rightarrow> localStorageService_getGames b);
          s2 = (case outcome of
                  Inr fetchedGames \<Rightarrow>
                    s1\<lparr>games := fetchedGames, lastGameCount := length fetchedGames\<rparr>
                | Inl e \<Rightarrow> s1);
          s3 = s2\<lparr>isLoading := False\<rparr>
      in (s3\<lparr>showNotification := False\<rparr>, b))"

definition handleDismissNotification :: "App \<Rightarrow> App" where
  "handleDismissNotification s = s\<lparr>showNotification := False\<rparr>"

subsection \<open>Change events\<close>

text \<open>
  \<open>localStorageService.subscribeToChanges\<close>: the listener it registers, run on a storage
  event with the given key.
\<close>

definition handleStorageChange :: "string \<Rightarrow> App \<times> browser \<Rightarrow> App \<times> browser" where
  "handleStorageChange key st =
     (let (s, b) = st
      in if key = ''gameUpdate''
         then (case localStorageService_getGames b of
                 Inr updatedGames \<Rightarrow> (subscription_callback updatedGames s, b)
               | Inl e \<Rightarrow> (s, b))
         else (s, b))"

text \<open>
  \<open>gameService.subscribeToChanges\<close>: the channel's handler, run on every change event of
  the table.
\<close>

definition postgres_changes :: "supabase \<Rightarrow> App \<times> browser \<Rightarrow> App \<times> browser" where
  "postgres_changes sb st =
     (let (s, b) = st
      in (subscription_callback (snd (gameService_getGames sb)) s, b))"

text \<open>
  The browser delivers a storage event to the other tabs for each key whose value a write
  has changed; a listener runs only if the effect registered it.
\<close>

definition storage_events :: "browser \<Rightarrow> browser \<Rightarrow> string list" where
  "storage_events before after =
     (if unblockedGames before \<noteq> unblockedGames after then [''unblockedGames''] else [])
     @ (if gameUpdate before \<noteq> gameUpdate after then [''gameUpdate''] else [])"

definition deliver_storage_event :: "string \<Rightarrow> App \<times> browser \<Rightarrow> App \<times> browser" where
  "deliver_storage_event key st =
     (case subscription (fst st) of
        Some LocalStorageService \<Rightarrow> handleStorageChange key st
      | _ \<Rightarrow> st)"

definition deliver_postgres_change :: "supabase \<Rightarrow> App \<times> browser \<Rightarrow> App \<times> browser" where
  "deliver_postgres_change sb st =
     (case subscription (fst st) of
        Some SupabaseService \<Rightarrow> postgres_changes sb st
      | _ \<Rightarrow> st)"

text \<open>
  A write by another tab of the same browser: the other tab runs an operation of the local
  store on the shared storage, with whatever outcome, and this tab receives the storage
  events.
\<close>

datatype tab_write =
    TabAdd GameFields
  | TabUpdate string GameUpdates
  | TabDelete string

definition other_tab :: "tab_write \<Rightarrow> App \<times> browser \<Rightarrow> App \<times> browser" where
  "other_tab w st =
     (let (s, b) = st;
          b' = (case w of
                  TabAdd game \<Rightarrow> snd (localStorageService_addGame b game)
                | TabUpdate i updates \<Rightarrow> snd (localStorageService_updateGame b i updates)
                | TabDelete i \<Rightarrow> snd (localStorageService_deleteGame b i))
      in fold deliver_storage_event (storage_events b b') (s, b'))"

text \<open>
  What can happen to a mounted component. An event that reaches the hosted backend
  carries the backend's answers at that moment.
\<close>

datatype event =
    AddGame supabase GameFields
  | UpdateGame supabase "Game option" GameFields
  | DeleteGame supabase bool string
  | ReloadGames supabase
  | DismissNotification
  | OtherTab tab_write
  | PostgresChange supabase
  | Online
  | Offline

fun step :: "event \<Rightarrow> App \<times> browser \<Rightarrow> App \<times> browser" where
  "step (AddGame sb newGame) st = handleAddGame sb newGame st"
| "step (UpdateGame sb editingGame newGame) st = handleUpdateGame sb editingGame newGame st"
| "step (DeleteGame sb confirmed gameId) st = handleDeleteGame sb confirmed gameId st"
| "step (ReloadGames sb) st = handleReloadGames sb st"
| "step DismissNotification st = (handleDismissNotification (fst st), snd st)"
| "step (OtherTab w) st = other_tab w st"
| "step (PostgresChange sb) st = deliver_postgres_change sb st"
| "step Online st = ((fst st)\<lparr>isOnline := True\<rparr>, snd st)"
| "step Offline st = ((fst st)\<lparr>isOnline := False\<rparr>, snd st)"

text \<open>A session: the events in the order they happen.\<close>

fun run :: "event list \<Rightarrow> App \<times> browser \<Rightarrow> App \<times> browser" where
  "run [] st = st"
| "run (ev # evs) st = run evs (step ev st)"

text \<open>The same event with the hosted backend answering differently.\<close>

fun with_backend :: "supabase \<Rightarrow> event \<Rightarrow> event" where
  "with_backend sb' (AddGame sb newGame) = AddGame sb' newGame"
| "with_backend sb' (UpdateGame sb editingGame newGame) = UpdateGame sb' editingGame newGame"
| "with_backend sb' (DeleteGame sb confirmed gameId) = DeleteGame sb' confirmed gameId"
| "with_backend sb' (ReloadGames sb) = ReloadGames sb'"
| "with_backend sb' (PostgresChange sb) = PostgresChange sb'"
| "with_backend sb' ev = ev"

subsection \<open>Well-formed identifiers and timestamps\<close>

text \<open>
  The shape \<open>YYYY-MM-DDTHH:mm:ss.sssZ\<close>: a year of four digits, or of a sign and six
  digits, followed by twenty characters with the separators in their places.
\<close>

definition year_wf :: "string \<Rightarrow> bool" where
  "year_wf yr = (length yr = 4 \<and> list_all is_digit yr
                 \<or> length yr = 7 \<and> hd yr = CHR ''+'' \<and> list_all is_digit (tl yr))"

definition time_wf :: "string \<Rightarrow> bool" where
  "time_wf r = (length r = 20 \<and> map (\<lambda>i. r ! i) [0, 3, 6, 9, 12, 15, 19] = ''--T::.Z''
                \<and> list_all (\<lambda>i. is_digit (r ! i)) [1, 2, 4, 5, 7, 8, 10, 11, 13, 14, 16, 17, 18])"

definition iso_wf :: "string \<Rightarrow> bool" where
  "iso_wf str = (let n = length str - 20 in year_wf (take n str) \<and> time_wf (drop n str))"

subsection \<open>Concrete inputs\<close>

text \<open>The update \<open>{title: x}\<close>.\<close>

definition title_only :: "string \<Rightarrow> GameUpdates" where
  "title_only x = \<lparr>title_upd = Some x, description_upd = None, category_upd = None,
     color_upd = None, url_upd = None\<rparr>"

definition maze :: GameFields where
  "maze = \<lparr>title = ''Maze'', description = [], category = ''Puzzle'', color = ''c1'',
     url = ''https://x/maze''\<rparr>"

definition pong :: GameFields where
  "pong = \<lparr>title = ''Pong'', description = ''Two paddles'', category = ''Arcade'',
     color = ''bg-blue-500'', url = ''https://x/pong''\<rparr>"

text \<open>Storages that accept every write, that refuse every write, and that accept two.\<close>

definition roomy :: "nat \<Rightarrow> bool" where
  "roomy k = False"

definition exhausted :: "nat \<Rightarrow> bool" where
  "exhausted k = True"

definition room_for_two :: "nat \<Rightarrow> bool" where
  "room_for_two k = (2 \<le> k)"

text \<open>
  An empty storage that accepts every write, with a clock that advances by one
  millisecond at every reading.
\<close>

definition ticking :: browser where
  "ticking = \<lparr>unblockedGames = None, gameUpdate = None, clock = (\<lambda>k. 1000 + k), reads = 0,
     refuses = roomy, writes = 0\<rparr>"

text \<open>The storage after one record has been created there.\<close>

definition ticked_once :: browser where
  "ticked_once = snd (localStorageService_addGame ticking maze)"

text \<open>
  An empty storage that accepts every write, with a clock whose readings all fall in the
  millisecond 1700000000000 (2023-11-14T22:13:20.000Z).
\<close>

definition same_ms :: browser where
  "same_ms = \<lparr>unblockedGames = None, gameUpdate = None, clock = (\<lambda>k. 1700000000000),
     reads = 0, refuses = roomy, writes = 0\<rparr>"

text \<open>Two records created within that millisecond.\<close>

definition added_once :: browser where
  "added_once = snd (localStorageService_addGame same_ms maze)"

definition added_twice :: browser where
  "added_twice = snd (localStorageService_addGame added_once pong)"

text \<open>An empty storage that refuses every write, under the advancing clock.\<close>

definition full :: browser where
  "full = \<lparr>unblockedGames = None, gameUpdate = None, clock = (\<lambda>k. 1000 + k), reads = 0,
     refuses = exhausted, writes = 0\<rparr>"

text \<open>
  A storage with room for the two writes of one create and none after them, and the
  storage after that create.
\<close>

definition nearly_full :: browser where
  "nearly_full = \<lparr>unblockedGames = None, gameUpdate = None, clock = (\<lambda>k. 1000 + k),
     reads = 0, refuses = room_for_two, writes = 0\<rparr>"

definition filled :: browser where
  "filled = snd (localStorageService_addGame nearly_full maze)"

text \<open>Connection configurations, and a \<open>createClient\<close> that returns a client.\<close>

definition configured :: import_meta_env where
  "configured = \<lparr>VITE_SUPABASE_URL = Some ''https://project.supabase.co'',
     VITE_SUPABASE_ANON_KEY = Some ''anon-key''\<rparr>"

definition unconfigured :: import_meta_env where
  "unconfigured = \<lparr>VITE_SUPABASE_URL = None, VITE_SUPABASE_ANON_KEY = None\<rparr>"

definition accepting :: "string \<Rightarrow> string \<Rightarrow> bool" where
  "accepting u k = True"

text \<open>Rows of the hosted table.\<close>

definition maze_row :: Game where
  "maze_row = \<lparr>title = ''Maze'', description = [], category = ''Puzzle'', color = ''c1'',
     url = ''https://x/maze'', id' = ''0b5c'', created_at = ''2023-11-14T22:13:20.000Z'',
     updated_at = ''2023-11-14T22:13:20.000Z''\<rparr>"

definition pong_row :: Game where
  "pong_row = \<lparr>title = ''Pong'', description = ''Two paddles'', category = ''Arcade'',
     color = ''bg-blue-500'', url = ''https://x/pong'', id' = ''7e21'',
     created_at = ''2023-11-14T22:13:21.000Z'', updated_at = ''2023-11-14T22:13:21.000Z''\<rparr>"

text \<open>
  A backend whose table holds the given rows and answers the select with them, and a
  backend that fails every request although it still sends rows along.
\<close>

definition refused :: "'a response" where
  "refused = \<lparr>data = None, error = Some ''permission denied''\<rparr>"

definition serving :: "Game list \<Rightarrow> supabase" where
  "serving rows = \<lparr>select_games = \<lparr>data = Some rows, error = None\<rparr>,
     insert_game = (\<lambda>game. refused), update_game = (\<lambda>i updates stamp. refused),
     delete_game = (\<lambda>i. refused)\<rparr>"

definition failing :: "Game list \<Rightarrow> supabase" where
  "failing rows = \<lparr>select_games = \<lparr>data = Some rows, error = Some ''fetch failed''\<rparr>,
     insert_game = (\<lambda>game. refused), update_game = (\<lambda>i updates stamp. refused),
     delete_game = (\<lambda>i. refused)\<rparr>"

text \<open>A component mounted on the hosted store, whose table is empty or holds one row.\<close>

definition mounted_empty :: "App \<times> browser" where
  "mounted_empty = (mount configured accepting (serving []) ticking, ticking)"

definition mounted_one :: "App \<times> browser" where
  "mounted_one = (mount configured accepting (serving [maze_row]) ticking, ticking)"

text \<open>A component mounted without configuration, and a session of it.\<close>

definition mounted_local :: "App \<times> browser" where
  "mounted_local = (mount unconfigured accepting (serving [maze_row]) ticking, ticking)"

definition session :: "event list" where
  "session = [AddGame (serving []) maze, OtherTab (TabAdd pong),
     PostgresChange (serving [pong_row, maze_row]), ReloadGames (serving [maze_row])]"

section \<open>Properties\<close>

subsection \<open>Renderings\<close>

lemma is_digit_digit_char [simp]: "is_digit (digit_char n)"
  unfolding is_digit_def digit_char_def by (rule nth_mem) simp

lemma toString_digits: "toString n \<noteq> [] \<and> list_all is_digit (toString n)"
proof (induction n rule: toString.induct)
  case (1 n)
  show ?case
  proof (cases "n < 10")
    case True
    then show ?thesis by (simp add: toString.simps [of n])
  next
    case False
    with 1 show ?thesis by (simp add: toString.simps [of n])
  qed
qed

lemma time_wf_tail:
  "time_wf (''-'' @ pad2 m @ ''-'' @ pad2 d @ ''T'' @ pad2 h @ '':'' @ pad2 mi @ '':''
            @ pad2 s @ ''.'' @ pad3 f @ ''Z'')"
  by (simp add: time_wf_def pad2_def pad3_def)

lemma year_wf_year: "year_wf (if y \<le> 9999 then pad4 y else CHR ''+'' # pad6 y)"
  by (simp add: year_wf_def pad4_def pad6_def)

lemma iso_wf_append: "year_wf yr \<Longrightarrow> time_wf r \<Longrightarrow> iso_wf (yr @ r)"
  by (simp add: iso_wf_def time_wf_def)

lemma iso_wf_toISOString: "iso_wf (toISOString ms)"
proof -
  obtain y m d where c: "civil_from_days (ms div 86400000) = (y, m, d)"
    by (cases "civil_from_days (ms div 86400000)") auto
  show ?thesis
    unfolding toISOString_def c Let_def prod.case
    by (rule iso_wf_append [OF year_wf_year time_wf_tail])
qed

text \<open>The rendering agrees with the calendar at the epoch and at a recent instant.\<close>

lemma civil_from_days_epoch: "civil_from_days 0 = (1970, 1, 1)"
  by (simp add: civil_from_days_def year_of_era_def day_of_year_def month_and_day_def)

lemma toISOString_epoch: "toISOString 0 = ''1970-01-01T00:00:00.000Z''"
  by (simp add: toISOString_def civil_from_days_epoch pad2_def pad3_def pad4_def digit_char_def)

lemma civil_from_days_2023: "civil_from_days 19675 = (2023, 11, 14)"
  by (simp add: civil_from_days_def year_of_era_def day_of_year_def month_and_day_def)

lemma toISOString_2023: "toISOString 1700000000000 = ''2023-11-14T22:13:20.000Z''"
  by (simp add: toISOString_def civil_from_days_2023 pad2_def pad3_def pad4_def digit_char_def)

subsection \<open>The local store, operation by operation\<close>

lemma findIndex_Some:
  "findIndex P xs = Some i \<Longrightarrow> i < length xs \<and> P (xs ! i) \<and> (\<forall>j<i. \<not> P (xs ! j))"
proof (induction xs arbitrary: i)
  case Nil
  then show ?case by simp
next
  case (Cons x xs)
  show ?case
  proof (cases "P x")
    case True
    with Cons.prems show ?thesis by simp
  next
    case False
    with Cons.prems obtain k where k: "findIndex P xs = Some k" "i = Suc k" by auto
    from Cons.IH [OF k(1)] have ih: "k < length xs" "P (xs ! k)" "\<forall>j<k. \<not> P (xs ! j)"
      by auto
    show ?thesis using False ih k(2) by (auto simp: nth_Cons less_Suc_eq_0_disj)
  qed
qed

lemma findIndex_None: "findIndex P xs = None \<longleftrightarrow> (\<forall>x\<in>set xs. \<not> P x)"
  by (induction xs) auto

lemma findIndex_present: "i \<in> f ` set xs \<Longrightarrow> \<exists>k. findIndex (\<lambda>g. f g = i) xs = Some k"
  by (cases "findIndex (\<lambda>g. f g = i) xs") (auto simp: findIndex_None)

text \<open>The list does not read the clock, the quota or the sentinel key.\<close>

lemma getGames_reads [simp]:
  "localStorageService_getGames (b\<lparr>reads := n\<rparr>) = localStorageService_getGames b"
  by (simp add: localStorageService_getGames_def)

lemma getGames_writes [simp]:
  "localStorageService_getGames (b\<lparr>writes := n\<rparr>) = localStorageService_getGames b"
  by (simp add: localStorageService_getGames_def)

lemma getGames_gameUpdate [simp]:
  "localStorageService_getGames (b\<lparr>gameUpdate := v\<rparr>) = localStorageService_getGames b"
  by (simp add: localStorageService_getGames_def)

lemma getGames_stored [simp]:
  "localStorageService_getGames (b\<lparr>unblockedGames := Some (Serialized gs)\<rparr>) = Inr gs"
  by (simp add: localStorageService_getGames_def JSON_parse_def)

text \<open>The operations when the stored collection parses and the storage accepts both writes.\<close>

lemma addGame_result:
  assumes "localStorageService_getGames b = Inr gs"
    and "\<not> refuses b (writes b)" and "\<not> refuses b (Suc (writes b))"
  shows "localStorageService_addGame b game =
     (Inr (Some \<lparr>title = title game, description = description game,
            category = category game, color = color game, url = url game,
            id' = toString (clock b (reads b)),
            created_at = toISOString (clock b (Suc (reads b))),
            updated_at = toISOString (clock b (Suc (Suc (reads b))))\<rparr>),
      b\<lparr>reads := reads b + 4, writes := writes b + 2,
        unblockedGames := Some (Serialized (\<lparr>title = title game,
            description = description game, category = category game, color = color game,
            url = url game, id' = toString (clock b (reads b)),
            created_at = toISOString (clock b (Suc (reads b))),
            updated_at = toISOString (clock b (Suc (Suc (reads b))))\<rparr> # gs)),
        gameUpdate := Some (toString (clock b (Suc (Suc (Suc (reads b))))))\<rparr>)"
  using assms
  by (simp add: localStorageService_addGame_def Date_now_def setItem_unblockedGames_def
      setItem_gameUpdate_def Let_def)

lemma deleteGame_result:
  assumes "localStorageService_getGames b = Inr gs"
    and "\<not> refuses b (writes b)" and "\<not> refuses b (Suc (writes b))"
  shows "localStorageService_deleteGame b i =
     (Inr True, b\<lparr>unblockedGames := Some (Serialized (filter (\<lambda>g. id' g \<noteq> i) gs)),
              reads := Suc (reads b), writes := writes b + 2,
              gameUpdate := Some (toString (clock b (reads b)))\<rparr>)"
  using assms
  by (simp add: localStorageService_deleteGame_def Date_now_def setItem_unblockedGames_def
      setItem_gameUpdate_def Let_def)

lemma updateGame_missing:
  assumes "localStorageService_getGames b = Inr gs" and "i \<notin> id' ` set gs"
  shows "localStorageService_updateGame b i updates = (Inr None, b)"
proof -
  from assms(2) have "findIndex (\<lambda>g. id' g = i) gs = None"
    by (auto simp: findIndex_None)
  with assms(1) show ?thesis by (simp add: localStorageService_updateGame_def)
qed

lemma updateGame_found:
  assumes "localStorageService_getGames b = Inr gs"
    and "findIndex (\<lambda>g. id' g = i) gs = Some k"
    and "\<not> refuses b (writes b)" and "\<not> refuses b (Suc (writes b))"
  shows "localStorageService_updateGame b i updates =
     (Inr (Some (spread (gs ! k) updates (toISOString (clock b (reads b))))),
      b\<lparr>reads := reads b + 2, writes := writes b + 2,
        unblockedGames := Some (Serialized
           (gs[k := spread (gs ! k) updates (toISOString (clock b (reads b)))])),
        gameUpdate := Some (toString (clock b (Suc (reads b))))\<rparr>)"
  using assms
  by (simp add: localStorageService_updateGame_def Date_now_def setItem_unblockedGames_def
      setItem_gameUpdate_def Let_def)

text \<open>The operations when the storage refuses the first write, or the stored string is malformed.\<close>

lemma addGame_refused:
  assumes "localStorageService_getGames b = Inr gs" and "refuses b (writes b)"
  shows "localStorageService_addGame b game
     = (Inl QuotaExceededError, b\<lparr>reads := reads b + 3, writes := Suc (writes b)\<rparr>)"
  using assms
  by (simp add: localStorageService_addGame_def Date_now_def setItem_unblockedGames_def Let_def)

lemma updateGame_refused:
  assumes "localStorageService_getGames b = Inr gs"
    and "findIndex (\<lambda>g. id' g = i) gs = Some k" and "refuses b (writes b)"
  shows "localStorageService_updateGame b i updates
     = (Inl QuotaExceededError, b\<lparr>reads := Suc (reads b), writes := Suc (writes b)\<rparr>)"
  using assms
  by (simp add: localStorageService_updateGame_def Date_now_def setItem_unblockedGames_def
      Let_def)

lemma malformed_rejects:
  assumes "localStorageService_getGames b = Inl e"
  shows "localStorageService_addGame b game = (Inl e, b)"
    and "localStorageService_updateGame b i updates = (Inl e, b)"
    and "localStorageService_deleteGame b i = (Inl e, b)"
  using assms
  by (simp_all add: localStorageService_addGame_def localStorageService_updateGame_def
      localStorageService_deleteGame_def)

lemma spread_fields:
  "title (spread g u st) = (case title_upd u of None \<Rightarrow> title g | Some v \<Rightarrow> v)"
  "description (spread g u st)
     = (case description_upd u of None \<Rightarrow> description g | Some v \<Rightarrow> v)"
  "category (spread g u st) = (case category_upd u of None \<Rightarrow> category g | Some v \<Rightarrow> v)"
  "color (spread g u st) = (case color_upd u of None \<Rightarrow> color g | Some v \<Rightarrow> v)"
  "url (spread g u st) = (case url_upd u of None \<Rightarrow> url g | Some v \<Rightarrow> v)"
  "id' (spread g u st) = id' g"
  "created_at (spread g u st) = created_at g"
  "updated_at (spread g u st) = st"
  by (simp_all add: spread_def)

text \<open>
  An accepted delete returns true and removes every record that carries the id: none is
  left, and the size falls by the number of such records.
\<close>

lemma deleteGame_local:
  assumes "localStorageService_getGames b = Inr gs"
    and "\<not> refuses b (writes b)" and "\<not> refuses b (Suc (writes b))"
  shows "\<exists>rest. fst (localStorageService_deleteGame b i) = Inr True
     \<and> localStorageService_getGames (snd (localStorageService_deleteGame b i)) = Inr rest
     \<and> i \<notin> id' ` set rest
     \<and> length rest + length (filter (\<lambda>g. id' g = i) gs) = length gs"
proof -
  have "length (filter (\<lambda>g. id' g \<noteq> i) xs) + length (filter (\<lambda>g. id' g = i) xs) = length xs"
    for xs :: "Game list"
    by (induction xs) auto
  then show ?thesis by (auto simp: deleteGame_result [OF assms])
qed

text \<open>An update, whatever its outcome, leaves the id of every stored record as it was.\<close>

lemma id_kept_by_update:
  "map_sum id (map id')
     (localStorageService_getGames (snd (localStorageService_updateGame b i updates)))
   = map_sum id (map id') (localStorageService_getGames b)"
proof (cases "localStorageService_getGames b")
  case (Inl e)
  then show ?thesis by (simp add: localStorageService_updateGame_def)
next
  case (Inr gs)
  show ?thesis
  proof (cases "findIndex (\<lambda>g. id' g = i) gs")
    case None
    with Inr show ?thesis by (simp add: localStorageService_updateGame_def)
  next
    case (Some k)
    from findIndex_Some [OF Some] have k: "k < length gs" by simp
    have ids: "map id' (gs[k := spread (gs ! k) updates st]) = map id' gs" for st
      using k by (simp add: map_update spread_def list_update_same_conv)
    show ?thesis
      using Inr Some ids
      by (simp add: localStorageService_updateGame_def Date_now_def setItem_unblockedGames_def
          setItem_gameUpdate_def Let_def)
  qed
qed

subsection \<open>The concrete storages\<close>

lemma toString_1000: "toString 1000 = ''1000''"
  by (simp add: toString.simps digit_char_def)

lemma ticking_games: "localStorageService_getGames ticking = Inr []"
  by (simp add: ticking_def localStorageService_getGames_def)

lemma ticking_facts:
  "\<not> refuses ticking (writes ticking)" "\<not> refuses ticking (Suc (writes ticking))"
  by (simp_all add: ticking_def roomy_def)

lemma ticked_once_eq:
  "ticked_once = \<lparr>unblockedGames = Some (Serialized
       [\<lparr>title = ''Maze'', description = [], category = ''Puzzle'', color = ''c1'',
         url = ''https://x/maze'', id' = ''1000'', created_at = toISOString 1001,
         updated_at = toISOString 1002\<rparr>]),
     gameUpdate = Some (toString 1003), clock = (\<lambda>k. 1000 + k), reads = 4,
     refuses = roomy, writes = 2\<rparr>"
  unfolding ticked_once_def
  by (subst addGame_result [OF ticking_games])
     (simp_all add: ticking_def maze_def roomy_def toString_1000)

lemma ticked_once_games:
  "localStorageService_getGames ticked_once =
     Inr [\<lparr>title = ''Maze'', description = [], category = ''Puzzle'', color = ''c1'',
       url = ''https://x/maze'', id' = ''1000'', created_at = toISOString 1001,
       updated_at = toISOString 1002\<rparr>]"
  by (simp add: ticked_once_eq localStorageService_getGames_def JSON_parse_def)

lemma ticked_once_facts:
  "clock ticked_once (reads ticked_once) = 1004"
  "\<not> refuses ticked_once (writes ticked_once)"
  "\<not> refuses ticked_once (Suc (writes ticked_once))"
  by (simp_all add: ticked_once_eq roomy_def)

lemma same_ms_games: "localStorageService_getGames same_ms = Inr []"
  by (simp add: same_ms_def localStorageService_getGames_def)

lemma added_once_eq:
  "added_once = \<lparr>unblockedGames = Some (Serialized
       [\<lparr>title = ''Maze'', description = [], category = ''Puzzle'', color = ''c1'',
         url = ''https://x/maze'', id' = toString 1700000000000,
         created_at = toISOString 1700000000000,
         updated_at = toISOString 1700000000000\<rparr>]),
     gameUpdate = Some (toString 1700000000000), clock = (\<lambda>k. 1700000000000), reads = 4,
     refuses = roomy, writes = 2\<rparr>"
  unfolding added_once_def
  by (subst addGame_result [OF same_ms_games])
     (simp_all add: same_ms_def maze_def roomy_def)

lemma added_once_games:
  "localStorageService_getGames added_once =
     Inr [\<lparr>title = ''Maze'', description = [], category = ''Puzzle'', color = ''c1'',
       url = ''https://x/maze'', id' = toString 1700000000000,
       created_at = toISOString 1700000000000, updated_at = toISOString 1700000000000\<rparr>]"
  by (simp add: added_once_eq localStorageService_getGames_def JSON_parse_def)

lemma added_once_facts:
  "clock added_once = (\<lambda>k. 1700000000000)"
  "\<not> refuses added_once (writes added_once)"
  "\<not> refuses added_once (Suc (writes added_once))"
  by (simp_all add: added_once_eq roomy_def)

lemma added_twice_eq:
  "added_twice = \<lparr>unblockedGames = Some (Serialized
       [\<lparr>title = ''Pong'', description = ''Two paddles'', category = ''Arcade'',
         color = ''bg-blue-500'', url = ''https://x/pong'', id' = toString 1700000000000,
         created_at = toISOString 1700000000000,
         updated_at = toISOString 1700000000000\<rparr>,
        \<lparr>title = ''Maze'', description = [], category = ''Puzzle'', color = ''c1'',
         url = ''https://x/maze'', id' = toString 1700000000000,
         created_at = toISOString 1700000000000,
         updated_at = toISOString 1700000000000\<rparr>]),
     gameUpdate = Some (toString 1700000000000), clock = (\<lambda>k. 1700000000000), reads = 8,
     refuses = roomy, writes = 4\<rparr>"
  unfolding added_twice_def
  by (subst addGame_result [OF added_once_games])
     (simp_all add: added_once_eq pong_def roomy_def)

lemma added_twice_games:
  "localStorageService_getGames added_twice =
     Inr [\<lparr>title = ''Pong'', description = ''Two paddles'', category = ''Arcade'',
       color = ''bg-blue-500'', url = ''https://x/pong'', id' = toString 1700000000000,
       created_at = toISOString 1700000000000, updated_at = toISOString 1700000000000\<rparr>,
      \<lparr>title = ''Maze'', description = [], category = ''Puzzle'', color = ''c1'',
       url = ''https://x/maze'', id' = toString 1700000000000,
       created_at = toISOString 1700000000000, updated_at = toISOString 1700000000000\<rparr>]"
  by (simp add: added_twice_eq localStorageService_getGames_def JSON_parse_def)

lemma added_twice_facts:
  "\<not> refuses added_twice (writes added_twice)"
  "\<not> refuses added_twice (Suc (writes added_twice))"
  by (simp_all add: added_twice_eq roomy_def)

lemma full_games: "localStorageService_getGames full = Inr []"
  by (simp add: full_def localStorageService_getGames_def)

lemma nearly_full_games: "localStorageService_getGames nearly_full = Inr []"
  by (simp add: nearly_full_def localStorageService_getGames_def)

lemma filled_eq:
  "filled = \<lparr>unblockedGames = Some (Serialized
       [\<lparr>title = ''Maze'', description = [], category = ''Puzzle'', color = ''c1'',
         url = ''https://x/maze'', id' = ''1000'', created_at = toISOString 1001,
         updated_at = toISOString 1002\<rparr>]),
     gameUpdate = Some (toString 1003), clock = (\<lambda>k. 1000 + k), reads = 4,
     refuses = room_for_two, writes = 2\<rparr>"
  unfolding filled_def
  by (subst addGame_result [OF nearly_full_games])
     (simp_all add: nearly_full_def maze_def room_for_two_def toString_1000)

lemma filled_games:
  "localStorageService_getGames filled =
     Inr [\<lparr>title = ''Maze'', description = [], category = ''Puzzle'', color = ''c1'',
       url = ''https://x/maze'', id' = ''1000'', created_at = toISOString 1001,
       updated_at = toISOString 1002\<rparr>]"
  by (simp add: filled_eq localStorageService_getGames_def JSON_parse_def)

subsection \<open>What a session cannot change\<close>

lemma callback_frame [simp]:
  "gameService (subscription_callback u s) = gameService s"
  "isSupabaseConnected (subscription_callback u s) = isSupabaseConnected s"
  "subscription (subscription_callback u s) = subscription s"
  by (simp_all add: subscription_callback_def Let_def)

lemma deliver_storage_event_frame:
  "gameService (fst (deliver_storage_event key st)) = gameService (fst st)
   \<and> isSupabaseConnected (fst (deliver_storage_event key st)) = isSupabaseConnected (fst st)
   \<and> subscription (fst (deliver_storage_event key st)) = subscription (fst st)"
  by (cases st)
     (simp add: deliver_storage_event_def handleStorageChange_def
        split: option.splits service.splits sum.splits)

lemma fold_deliver_frame:
  "gameService (fst (fold deliver_storage_event keys st)) = gameService (fst st)
   \<and> isSupabaseConnected (fst (fold deliver_storage_event keys st))
       = isSupabaseConnected (fst st)
   \<and> subscription (fst (fold deliver_storage_event keys st)) = subscription (fst st)"
proof (induction keys arbitrary: st)
  case Nil
  show ?case by simp
next
  case (Cons key keys)
  show ?case
    using Cons.IH [of "deliver_storage_event key st"] deliver_storage_event_frame [of key st]
    by simp
qed

text \<open>
  No handler and no change event writes \<open>gameService\<close> or \<open>isSupabaseConnected\<close>; so the
  subscription effect does not run again, and the subscription stays what it is.
\<close>

lemma step_frame:
  "gameService (fst (step ev st)) = gameService (fst st)
   \<and> isSupabaseConnected (fst (step ev st)) = isSupabaseConnected (fst st)
   \<and> subscription (fst (step ev st)) = subscription (fst st)"
proof (cases st)
  case (Pair s b)
  show ?thesis
  proof (cases ev)
    case (AddGame sb newGame)
    then show ?thesis unfolding Pair
      by (simp add: handleAddGame_def Let_def
          split: prod.splits option.splits service.splits sum.splits)
  next
    case (UpdateGame sb editingGame newGame)
    then show ?thesis unfolding Pair
      by (simp add: handleUpdateGame_def Let_def
          split: prod.splits option.splits service.splits sum.splits)
  next
    case (DeleteGame sb confirmed gameId)
    then show ?thesis unfolding Pair
      by (simp add: handleDeleteGame_def Let_def
          split: prod.splits service.splits sum.splits)
  next
    case (ReloadGames sb)
    then show ?thesis unfolding Pair
      by (simp add: handleReloadGames_def Let_def split: sum.splits)
  next
    case DismissNotification
    then show ?thesis by (simp add: handleDismissNotification_def)
  next
    case (OtherTab w)
    then show ?thesis unfolding Pair
      using fold_deliver_frame by (simp add: other_tab_def Let_def)
  next
    case (PostgresChange sb)
    then show ?thesis unfolding Pair
      by (simp add: deliver_postgres_change_def postgres_changes_def
          split: option.splits service.splits)
  next
    case Online
    then show ?thesis by simp
  next
    case Offline
    then show ?thesis by simp
  qed
qed

lemma run_frame:
  "gameService (fst (run evs st)) = gameService (fst st)
   \<and> isSupabaseConnected (fst (run evs st)) = isSupabaseConnected (fst st)
   \<and> subscription (fst (run evs st)) = subscription (fst st)"
proof (induction evs arbitrary: st)
  case Nil
  show ?case by simp
next
  case (Cons ev evs)
  show ?case using Cons.IH [of "step ev st"] step_frame [of ev st] by simp
qed

subsection \<open>The component after a failed initialisation\<close>

lemma import_supabase_unconfigured:
  "falsy (VITE_SUPABASE_URL env) \<or> falsy (VITE_SUPABASE_ANON_KEY env)
     \<Longrightarrow> import_supabase env createClient = Inl ''Missing Supabase environment variables''"
  by (simp add: import_supabase_def Let_def)

lemma import_supabase_throwing_client:
  "\<not> falsy (Some u) \<Longrightarrow> \<not> falsy (Some k) \<Longrightarrow> \<not> createClient u k
     \<Longrightarrow> import_supabase \<lparr>VITE_SUPABASE_URL = Some u, VITE_SUPABASE_ANON_KEY = Some k\<rparr>
           createClient = Inl ''createClient''"
  by (simp add: import_supabase_def Let_def)

text \<open>
  The module loads exactly when both variables are set and \<open>createClient\<close> returns; an
  error in the answer to the first list is not a failure of the load, and leaves the
  hosted store selected.
\<close>

lemma answer_error_is_no_fallback:
  assumes "import_supabase env createClient = Inr u"
  shows "gameService (mount env createClient sb b) = Some SupabaseService
   \<and> isSupabaseConnected (mount env createClient sb b)
   \<and> games (mount env createClient sb b) = snd (gameService_getGames sb)"
  using assms
  by (simp add: mount_def initializeSupabase_def subscription_effect_def initial_App_def Let_def)

lemma mount_fallback:
  assumes "import_supabase env createClient = Inl err"
  shows "mount env createClient sb b =
     (case localStorageService_getGames b of
        Inr fetched \<Rightarrow>
          \<lparr>gameService = None, isSupabaseConnected = False, games = fetched,
           showNotification = False, isOnline = True, isLoading = False,
           lastGameCount = length fetched, subscription = None\<rparr>
      | Inl e \<Rightarrow>
          \<lparr>gameService = None, isSupabaseConnected = False, games = [],
           showNotification = False, isOnline = True, isLoading = True,
           lastGameCount = 0, subscription = None\<rparr>)"
  using assms
  by (simp add: mount_def initializeSupabase_def subscription_effect_def initial_App_def Let_def
      split: sum.splits)

lemma mount_fallback_fields:
  assumes "import_supabase env createClient = Inl err"
  shows "gameService (mount env createClient sb b) = None"
    and "\<not> isSupabaseConnected (mount env createClient sb b)"
    and "subscription (mount env createClient sb b) = None"
    and "\<not> showNotification (mount env createClient sb b)"
  by (simp_all add: mount_fallback [OF assms] split: sum.splits)

lemma unsubscribed_deliver:
  "subscription (fst st) = None \<Longrightarrow> fold deliver_storage_event keys st = st"
  by (induction keys) (simp_all add: deliver_storage_event_def)

lemma unsubscribed_other_tab:
  "subscription (fst st) = None \<Longrightarrow> fst (step (OtherTab w) st) = fst st"
  by (cases st) (simp add: other_tab_def Let_def unsubscribed_deliver)

lemma unsubscribed_banner:
  assumes "subscription (fst st) = None" and "\<not> showNotification (fst st)"
  shows "\<not> showNotification (fst (step ev st))"
proof (cases st)
  case (Pair s b)
  with assms have s: "subscription s = None" "\<not> showNotification s" by simp_all
  show ?thesis
  proof (cases ev)
    case (AddGame sb newGame)
    then show ?thesis unfolding Pair using s
      by (simp add: handleAddGame_def Let_def
          split: prod.splits option.splits service.splits sum.splits)
  next
    case (UpdateGame sb editingGame newGame)
    then show ?thesis unfolding Pair using s
      by (simp add: handleUpdateGame_def Let_def
          split: prod.splits option.splits service.splits sum.splits)
  next
    case (DeleteGame sb confirmed gameId)
    then show ?thesis unfolding Pair using s
      by (simp add: handleDeleteGame_def Let_def
          split: prod.splits service.splits sum.splits)
  next
    case (ReloadGames sb)
    then show ?thesis unfolding Pair by (simp add: handleReloadGames_def Let_def)
  next
    case DismissNotification
    then show ?thesis by (simp add: handleDismissNotification_def)
  next
    case (OtherTab w)
    then show ?thesis using unsubscribed_other_tab [OF assms(1), of w] assms(2) by simp
  next
    case (PostgresChange sb)
    then show ?thesis unfolding Pair using s by (simp add: deliver_postgres_change_def)
  next
    case Online
    then show ?thesis using assms by simp
  next
    case Offline
    then show ?thesis using assms by simp
  qed
qed

lemma unsubscribed_run_banner:
  "subscription (fst st) = None \<Longrightarrow> \<not> showNotification (fst st)
     \<Longrightarrow> \<not> showNotification (fst (run evs st))"
proof (induction evs arbitrary: st)
  case Nil
  then show ?case by simp
next
  case (Cons ev evs)
  have "subscription (fst (step ev st)) = None"
    using step_frame [of ev st] Cons.prems by simp
  moreover have "\<not> showNotification (fst (step ev st))"
    using unsubscribed_banner Cons.prems by blast
  ultimately show ?case using Cons.IH by simp
qed

lemma local_step_ignores_backend:
  assumes "gameService (fst st) = None" and "subscription (fst st) = None"
  shows "step (with_backend sb' ev) st = step ev st"
proof (cases st)
  case (Pair s b)
  with assms have s: "gameService s = None" "subscription s = None" by simp_all
  then have g: "getGameService s = LocalStorageService" by (simp add: getGameService_def)
  show ?thesis
  proof (cases ev)
    case (AddGame sb newGame)
    then show ?thesis unfolding Pair using g by (simp add: handleAddGame_def)
  next
    case (UpdateGame sb editingGame newGame)
    then show ?thesis unfolding Pair using g
      by (simp add: handleUpdateGame_def split: option.splits)
  next
    case (DeleteGame sb confirmed gameId)
    then show ?thesis unfolding Pair using g by (simp add: handleDeleteGame_def)
  next
    case (ReloadGames sb)
    then show ?thesis unfolding Pair using g by (simp add: handleReloadGames_def)
  next
    case (PostgresChange sb)
    then show ?thesis unfolding Pair using s by (simp add: deliver_postgres_change_def)
  qed simp_all
qed

lemma local_run_ignores_backend:
  "gameService (fst st) = None \<Longrightarrow> subscription (fst st) = None
     \<Longrightarrow> run (map (with_backend sb') evs) st = run evs st"
proof (induction evs arbitrary: st)
  case Nil
  show ?case by simp
next
  case (Cons ev evs)
  have "gameService (fst (step ev st)) = None" "subscription (fst (step ev st)) = None"
    using step_frame [of ev st] Cons.prems by simp_all
  then show ?case using Cons.IH local_step_ignores_backend [OF Cons.prems] by simp
qed

text \<open>
  With no hosted service selected, each operation of the component is the local store's
  operation on the browser's storage, and the display follows its result.
\<close>

lemma local_create:
  assumes "gameService (fst st) = None" and "title g \<noteq> []" and "url g \<noteq> []"
  shows "snd (step (AddGame sb g) st) = snd (localStorageService_addGame (snd st) g)
    \<and> (\<forall>a. fst (localStorageService_addGame (snd st) g) = Inr (Some a)
           \<longrightarrow> games (fst (step (AddGame sb g) st)) = a # games (fst st))
    \<and> (\<forall>x. fst (localStorageService_addGame (snd st) g) = Inl x
           \<longrightarrow> fst (step (AddGame sb g) st) = fst st)"
proof -
  obtain s b where st: "st = (s, b)" by (cases st)
  obtain out b' where r: "localStorageService_addGame b g = (out, b')"
    by (cases "localStorageService_addGame b g")
  from assms(1) st have "getGameService s = LocalStorageService"
    by (simp add: getGameService_def)
  then show ?thesis
    using assms(2,3) r by (simp add: st handleAddGame_def Let_def split: sum.splits option.splits)
qed

lemma local_update:
  assumes "gameService (fst st) = None" and "title g \<noteq> []" and "url g \<noteq> []"
  shows "snd (step (UpdateGame sb (Some e) g) st)
           = snd (localStorageService_updateGame (snd st) (id' e) (all_fields g))
    \<and> (\<forall>u. fst (localStorageService_updateGame (snd st) (id' e) (all_fields g))
             = Inr (Some u)
           \<longrightarrow> games (fst (step (UpdateGame sb (Some e) g) st))
                 = map (\<lambda>game. if id' game = id' e then u else game) (games (fst st)))
    \<and> (\<forall>x. fst (localStorageService_updateGame (snd st) (id' e) (all_fields g)) = Inl x
           \<longrightarrow> fst (step (UpdateGame sb (Some e) g) st) = fst st)"
proof -
  obtain s b where st: "st = (s, b)" by (cases st)
  obtain out b' where r: "localStorageService_updateGame b (id' e) (all_fields g) = (out, b')"
    by (cases "localStorageService_updateGame b (id' e) (all_fields g)")
  from assms(1) st have "getGameService s = LocalStorageService"
    by (simp add: getGameService_def)
  then show ?thesis
    using assms(2,3) r by (simp add: st handleUpdateGame_def Let_def split: sum.splits option.splits)
qed

lemma local_delete:
  assumes "gameService (fst st) = None"
  shows "snd (step (DeleteGame sb True i) st) = snd (localStorageService_deleteGame (snd st) i)
    \<and> (fst (localStorageService_deleteGame (snd st) i) = Inr True
           \<longrightarrow> games (fst (step (DeleteGame sb True i) st))
                 = filter (\<lambda>game. id' game \<noteq> i) (games (fst st)))
    \<and> (\<forall>x. fst (localStorageService_deleteGame (snd st) i) = Inl x
           \<longrightarrow> fst (step (DeleteGame sb True i) st) = fst st)"
proof -
  obtain s b where st: "st = (s, b)" by (cases st)
  obtain out b' where r: "localStorageService_deleteGame b i = (out, b')"
    by (cases "localStorageService_deleteGame b i")
  from assms(1) st have "getGameService s = LocalStorageService"
    by (simp add: getGameService_def)
  then show ?thesis
    using r by (simp add: st handleDeleteGame_def Let_def split: sum.splits)
qed

lemma local_list:
  assumes "gameService (fst st) = None" and "localStorageService_getGames (snd st) = Inr gs"
  shows "games (fst (step (ReloadGames sb) st)) = gs"
  using assms
  by (cases st) (simp add: handleReloadGames_def getGameService_def Let_def)

section \<open>The claims\<close>

subsection \<open>Change reconciliation\<close>

text \<open>
  C1 at a concrete session. The component is mounted on the hosted store while the table
  is empty: the first load has completed (\<open>isLoading\<close> is false, the state is no longer
  the initial one) and the subscription is registered. A second client then creates a
  record and the change event delivers a collection of size one. The displayed collection
  grows from zero to one and the banner stays hidden, where the claim has it visible: the
  subscription handler tests \<open>prevGames.length > 0\<close> for "not the initial load", and an
  empty collection fails that test whether it has been loaded or not.
\<close>

theorem first_record_raises_no_banner:
  "fst mounted_empty \<noteq> initial_App
   \<and> isLoading (fst mounted_empty) = False
   \<and> subscription (fst mounted_empty) = Some SupabaseService
   \<and> games (fst mounted_empty) = []
   \<and> showNotification (fst mounted_empty) = False
   \<and> games (fst (step (PostgresChange (serving [maze_row])) mounted_empty)) = [maze_row]
   \<and> showNotification (fst (step (PostgresChange (serving [maze_row])) mounted_empty)) = False"
  by (simp add: mounted_empty_def mount_def initializeSupabase_def subscription_effect_def
      initial_App_def import_supabase_def configured_def accepting_def falsy_def
      getGameService_def gameService_getGames_def serving_def deliver_postgres_change_def
      postgres_changes_def subscription_callback_def Let_def)

text \<open>
  What the handler does when the displayed collection is not empty: a delivered
  collection that is strictly larger makes the banner visible, is displayed, and the size
  bookkeeping is updated; the change events of either store run the handler.
\<close>

lemma banner_on_growth:
  assumes "games s \<noteq> []" and "length (games s) < length updatedGames"
  shows "showNotification (subscription_callback updatedGames s)
   \<and> games (subscription_callback updatedGames s) = updatedGames
   \<and> lastGameCount (subscription_callback updatedGames s) = length updatedGames
   \<and> (subscription s = Some SupabaseService \<and> snd (gameService_getGames sb) = updatedGames
        \<longrightarrow> fst (step (PostgresChange sb) (s, b)) = subscription_callback updatedGames s)
   \<and> (subscription s = Some LocalStorageService
        \<and> localStorageService_getGames b = Inr updatedGames
        \<longrightarrow> fst (deliver_storage_event ''gameUpdate'' (s, b))
              = subscription_callback updatedGames s)"
  using assms
  by (auto simp: subscription_callback_def Let_def deliver_postgres_change_def
      postgres_changes_def deliver_storage_event_def handleStorageChange_def)

lemma mounted_one_eq:
  "fst mounted_one = \<lparr>gameService = Some SupabaseService, isSupabaseConnected = True,
      games = [maze_row], showNotification = False, isOnline = True, isLoading = False,
      lastGameCount = 1, subscription = Some SupabaseService\<rparr>"
  by (simp add: mounted_one_def mount_def initializeSupabase_def subscription_effect_def
      initial_App_def import_supabase_def configured_def accepting_def falsy_def
      getGameService_def gameService_getGames_def serving_def Let_def)

lemma second_record_raises_banner:
  "games (fst mounted_one) = [maze_row]
   \<and> showNotification (fst mounted_one) = False
   \<and> showNotification (fst (step (PostgresChange (serving [pong_row, maze_row])) mounted_one))
   \<and> games (fst (step (PostgresChange (serving [pong_row, maze_row])) mounted_one))
       = [pong_row, maze_row]"
proof -
  have g: "snd (gameService_getGames (serving [pong_row, maze_row])) = [pong_row, maze_row]"
    by (simp add: gameService_getGames_def serving_def Let_def)
  have h1: "games (fst mounted_one) \<noteq> []" by (simp add: mounted_one_eq)
  have h2: "length (games (fst mounted_one)) < length [pong_row, maze_row]"
    by (simp add: mounted_one_eq)
  have s: "mounted_one = (fst mounted_one, ticking)" by (simp add: mounted_one_def)
  from banner_on_growth [OF h1 h2, of "serving [pong_row, maze_row]" ticking] g mounted_one_eq s
  show ?thesis by simp
qed

text \<open>
  C2: for every collection a subscription delivers whose size is at most the size of the
  displayed collection (an update or a deletion), the delivered collection is displayed at
  once, the size bookkeeping is updated and the banner flag is left as it was; a hidden
  banner stays hidden. The same holds for the events that deliver it.
\<close>

theorem silent_on_shrink_or_update:
  assumes "length updatedGames \<le> length (games s)"
  shows "games (subscription_callback updatedGames s) = updatedGames
   \<and> showNotification (subscription_callback updatedGames s) = showNotification s
   \<and> lastGameCount (subscription_callback updatedGames s) = length updatedGames
   \<and> (subscription s = Some SupabaseService \<and> snd (gameService_getGames sb) = updatedGames
        \<longrightarrow> fst (step (PostgresChange sb) (s, b)) = subscription_callback updatedGames s)
   \<and> (subscription s = Some LocalStorageService
        \<and> localStorageService_getGames b = Inr updatedGames
        \<longrightarrow> fst (deliver_storage_event ''gameUpdate'' (s, b))
              = subscription_callback updatedGames s)"
  using assms
  by (auto simp: subscription_callback_def Let_def deliver_postgres_change_def
      postgres_changes_def deliver_storage_event_def handleStorageChange_def)

theorem silent_on_shrink_or_update_witness:
  "games (fst mounted_one) = [maze_row]
   \<and> games (fst (step (PostgresChange (serving [])) mounted_one)) = []
   \<and> showNotification (fst (step (PostgresChange (serving [])) mounted_one)) = False
   \<and> lastGameCount (fst (step (PostgresChange (serving [])) mounted_one)) = 0"
proof -
  have g: "snd (gameService_getGames (serving [])) = []"
    by (simp add: gameService_getGames_def serving_def Let_def)
  have h: "length ([] :: Game list) \<le> length (games (fst mounted_one))" by simp
  have s: "mounted_one = (fst mounted_one, ticking)" by (simp add: mounted_one_def)
  from silent_on_shrink_or_update [OF h, of "serving []" ticking] g mounted_one_eq s
  show ?thesis by simp
qed

text \<open>
  C3: when loading the hosted store's module fails, the subscription effect's guard
  returns before \<open>subscribeToChanges\<close>: at no point of the session is a listener
  registered, a write by another tab leaves the component's state (the displayed
  collection and the banner with it) as it was, and the banner is never visible.
\<close>

theorem fallback_never_subscribes:
  assumes "import_supabase env createClient = Inl err"
  shows "subscription (mount env createClient sb b) = None
   \<and> subscription (fst (run evs (mount env createClient sb b, b))) = None
   \<and> fst (step (OtherTab w) (run evs (mount env createClient sb b, b)))
       = fst (run evs (mount env createClient sb b, b))
   \<and> \<not> showNotification (fst (run evs (mount env createClient sb b, b)))
   \<and> \<not> showNotification (fst (step (OtherTab w) (run evs (mount env createClient sb b, b))))"
proof -
  let ?st = "(mount env createClient sb b, b)"
  have m: "subscription (fst ?st) = None" "\<not> showNotification (fst ?st)"
    by (simp_all add: mount_fallback_fields [OF assms])
  have r: "subscription (fst (run evs ?st)) = None"
    using run_frame [of evs ?st] m(1) by simp
  have n: "\<not> showNotification (fst (run evs ?st))"
    by (rule unsubscribed_run_banner [OF m])
  have o: "fst (step (OtherTab w) (run evs ?st)) = fst (run evs ?st)"
    by (rule unsubscribed_other_tab [OF r])
  from m r n o show ?thesis by simp
qed

theorem fallback_never_subscribes_witness:
  "import_supabase unconfigured accepting = Inl ''Missing Supabase environment variables''
   \<and> subscription (fst (run session mounted_local)) = None
   \<and> fst (step (OtherTab (TabAdd pong)) (run session mounted_local))
       = fst (run session mounted_local)
   \<and> \<not> showNotification (fst (run session mounted_local))"
proof -
  have h: "import_supabase unconfigured accepting = Inl ''Missing Supabase environment variables''"
    by (simp add: import_supabase_def unconfigured_def falsy_def)
  from fallback_never_subscribes [OF h, of "serving [maze_row]" ticking session "TabAdd pong"] h
  show ?thesis by (simp add: mounted_local_def)
qed

subsection \<open>The stores\<close>

text \<open>
  C4 at a concrete input: a create on the local store while the storage refuses the write.
  The promise is rejected with the storage's exception; it does not resolve to \<open>null\<close>,
  as the claim has it and as the hosted store does when its backend answers with an error.
  Nothing is stored.
\<close>

theorem create_on_full_storage_rejects:
  "localStorageService_getGames full = Inr []
   \<and> fst (localStorageService_addGame full maze) = Inl QuotaExceededError
   \<and> fst (localStorageService_addGame full maze) \<noteq> Inr None
   \<and> localStorageService_getGames (snd (localStorageService_addGame full maze)) = Inr []
   \<and> snd (gameService_addGame (serving []) maze) = None"
proof -
  have r: "refuses full (writes full)" by (simp add: full_def exhausted_def)
  show ?thesis
    by (simp add: addGame_refused [OF full_games r] full_games gameService_addGame_def
        serving_def refused_def)
qed

text \<open>
  The success path of \<open>create\<close>: when the stored collection parses and the storage
  accepts the two writes, the local store returns the record it has persisted, which is the
  input's five fields with an id that is the decimal rendering of the clock (not empty,
  digits only) and with \<open>created_at\<close> and \<open>updated_at\<close> that are ISO-8601 renderings of
  the clock; the list that follows is that one record in front of the list before. On
  the hosted store \<open>create\<close> returns the row of the backend's answer, and \<open>null\<close> when the
  answer carries an error.
\<close>

lemma create_then_list:
  assumes "localStorageService_getGames b = Inr gs"
    and "\<not> refuses b (writes b)" and "\<not> refuses b (Suc (writes b))"
  shows "\<exists>g b'. localStorageService_addGame b game = (Inr (Some g), b')
     \<and> localStorageService_getGames b' = Inr (g # gs)
     \<and> title g = title game \<and> description g = description game
     \<and> category g = category game \<and> color g = color game \<and> url g = url game
     \<and> id' g = toString (clock b (reads b)) \<and> id' g \<noteq> [] \<and> list_all is_digit (id' g)
     \<and> created_at g = toISOString (clock b (reads b + 1)) \<and> iso_wf (created_at g)
     \<and> updated_at g = toISOString (clock b (reads b + 2)) \<and> iso_wf (updated_at g)
     \<and> snd (gameService_addGame sb game)
         = (case error (insert_game sb game) of
              Some e \<Rightarrow> None
            | None \<Rightarrow> data (insert_game sb game))"
proof -
  have remote: "snd (gameService_addGame sb game)
         = (case error (insert_game sb game) of
              Some e \<Rightarrow> None
            | None \<Rightarrow> data (insert_game sb game))"
    by (simp add: gameService_addGame_def Let_def split: option.splits)
  show ?thesis
    unfolding addGame_result [OF assms, of game]
    using remote by (simp add: toString_digits iso_wf_toISOString)
qed

text \<open>
  C5, as stated, at a concrete input: a record is created and its title is updated while
  the clock still reads the same millisecond. The update returns the record with the new
  title, and \<open>updated_at\<close> after the update is the string it was before, which is not
  strictly greater.
\<close>

theorem same_ms_update_keeps_stamp:
  "fst (localStorageService_updateGame added_once (toString 1700000000000) (title_only ''X''))
     = Inr (Some \<lparr>title = ''X'', description = [], category = ''Puzzle'', color = ''c1'',
         url = ''https://x/maze'', id' = toString 1700000000000,
         created_at = toISOString 1700000000000, updated_at = toISOString 1700000000000\<rparr>)
   \<and> map_sum id (map updated_at) (localStorageService_getGames added_once)
       = Inr [toISOString 1700000000000]
   \<and> map_sum id (map updated_at) (localStorageService_getGames
        (snd (localStorageService_updateGame added_once (toString 1700000000000)
           (title_only ''X''))))
       = Inr [toISOString 1700000000000]
   \<and> \<not> (toISOString 1700000000000 < toISOString 1700000000000)"
proof -
  have k: "findIndex (\<lambda>g. id' g = toString 1700000000000)
             [\<lparr>title = ''Maze'', description = [], category = ''Puzzle'', color = ''c1'',
               url = ''https://x/maze'', id' = toString 1700000000000,
               created_at = toISOString 1700000000000,
               updated_at = toISOString 1700000000000\<rparr>] = Some 0"
    by simp
  show ?thesis
    by (simp add: updateGame_found [OF added_once_games k added_once_facts(2,3)]
        added_once_games added_once_facts(1) spread_def title_only_def)
qed

text \<open>
  C5, amended: for every id that exists in the local store, \<open>update(id, {title: x})\<close>,
  when the storage accepts its writes, returns a record that the list that follows holds
  in the place of the first record with that id, all other places unchanged; its title is
  \<open>x\<close>, its id, description, category, color, url and \<open>created_at\<close> are those of the
  record before, and its \<open>updated_at\<close> is the ISO-8601 rendering of the clock at the
  update (whatever the value before was).
\<close>

theorem update_title_then_list:
  assumes "localStorageService_getGames b = Inr gs" and "i \<in> id' ` set gs"
    and "\<not> refuses b (writes b)" and "\<not> refuses b (Suc (writes b))"
  shows "\<exists>k new. findIndex (\<lambda>g. id' g = i) gs = Some k
     \<and> k < length gs
     \<and> id' (gs ! k) = i
     \<and> fst (localStorageService_updateGame b i (title_only x)) = Inr (Some new)
     \<and> localStorageService_getGames (snd (localStorageService_updateGame b i (title_only x)))
         = Inr (gs[k := new])
     \<and> title new = x
     \<and> id' new = id' (gs ! k)
     \<and> description new = description (gs ! k)
     \<and> category new = category (gs ! k)
     \<and> color new = color (gs ! k)
     \<and> url new = url (gs ! k)
     \<and> created_at new = created_at (gs ! k)
     \<and> updated_at new = toISOString (clock b (reads b))"
proof -
  from findIndex_present [OF assms(2)] obtain k
    where k: "findIndex (\<lambda>g. id' g = i) gs = Some k" ..
  from findIndex_Some [OF k] have kk: "k < length gs" "id' (gs ! k) = i" by auto
  show ?thesis
    using k kk
    by (simp add: updateGame_found [OF assms(1) k assms(3,4)] spread_fields title_only_def)
qed

theorem update_title_then_list_witness:
  "localStorageService_getGames ticked_once
     = Inr [\<lparr>title = ''Maze'', description = [], category = ''Puzzle'', color = ''c1'',
         url = ''https://x/maze'', id' = ''1000'', created_at = toISOString 1001,
         updated_at = toISOString 1002\<rparr>]
   \<and> \<not> refuses ticked_once (writes ticked_once)
   \<and> \<not> refuses ticked_once (Suc (writes ticked_once))
   \<and> localStorageService_getGames
       (snd (localStorageService_updateGame ticked_once ''1000'' (title_only ''X'')))
     = Inr [\<lparr>title = ''X'', description = [], category = ''Puzzle'', color = ''c1'',
         url = ''https://x/maze'', id' = ''1000'', created_at = toISOString 1001,
         updated_at = toISOString 1004\<rparr>]"
proof -
  have h: "''1000'' \<in> id' ` set [\<lparr>title = ''Maze'', description = [], category = ''Puzzle'',
         color = ''c1'', url = ''https://x/maze'', id' = ''1000'',
         created_at = toISOString 1001, updated_at = toISOString 1002\<rparr>]"
    by simp
  from update_title_then_list [OF ticked_once_games h ticked_once_facts(2,3), of "''X''"]
    ticked_once_games ticked_once_facts
  show ?thesis by (auto simp: spread_def title_only_def)
qed

text \<open>
  C6 at a concrete input: an update of an existing record on the local store while the
  storage refuses the write. The promise is rejected with the storage's exception; it
  does not resolve to \<open>null\<close>, as the claim has it for a failed write and as the hosted
  store does when its backend answers with an error. The stored collection is unchanged.
\<close>

theorem update_on_full_storage_rejects:
  "localStorageService_getGames filled
     = Inr [\<lparr>title = ''Maze'', description = [], category = ''Puzzle'', color = ''c1'',
         url = ''https://x/maze'', id' = ''1000'', created_at = toISOString 1001,
         updated_at = toISOString 1002\<rparr>]
   \<and> fst (localStorageService_updateGame filled ''1000'' (title_only ''X''))
       = Inl QuotaExceededError
   \<and> fst (localStorageService_updateGame filled ''1000'' (title_only ''X'')) \<noteq> Inr None
   \<and> localStorageService_getGames
       (snd (localStorageService_updateGame filled ''1000'' (title_only ''X'')))
     = localStorageService_getGames filled
   \<and> snd (fst (gameService_updateGame (serving []) filled ''1000'' (title_only ''X'')))
       = None"
proof -
  have k: "findIndex (\<lambda>g. id' g = ''1000'')
             [\<lparr>title = ''Maze'', description = [], category = ''Puzzle'', color = ''c1'',
               url = ''https://x/maze'', id' = ''1000'', created_at = toISOString 1001,
               updated_at = toISOString 1002\<rparr>] = Some 0"
    by simp
  have r: "refuses filled (writes filled)" by (simp add: filled_eq room_for_two_def)
  show ?thesis
    by (simp add: updateGame_refused [OF filled_games k r] filled_games
        gameService_updateGame_def Date_now_def serving_def refused_def)
qed

text \<open>
  The other paths of \<open>update\<close> on the local store: it resolves to \<open>null\<close> when no record
  has the id, and then nothing is written, the browser is what it was; when a record has
  the id and the storage accepts the two writes, it resolves to the first such record
  with the supplied fields laid over it and \<open>updated_at\<close> set to the rendering of the
  clock, and the stored collection holds this record in the place of the old one. A
  field that is supplied takes the supplied value, a field that is not keeps its value,
  the id and \<open>created_at\<close> are kept. On the hosted store \<open>update\<close> returns \<open>null\<close> when
  the backend's answer carries an error, and the answer's row otherwise.
\<close>

lemma update_merges_or_null:
  assumes "localStorageService_getGames b = Inr gs"
  shows "(i \<notin> id' ` set gs \<longrightarrow> localStorageService_updateGame b i updates = (Inr None, b))
   \<and> (i \<in> id' ` set gs \<and> \<not> refuses b (writes b) \<and> \<not> refuses b (Suc (writes b)) \<longrightarrow>
      (\<exists>k. findIndex (\<lambda>g. id' g = i) gs = Some k
         \<and> fst (localStorageService_updateGame b i updates)
             = Inr (Some (spread (gs ! k) updates (toISOString (clock b (reads b)))))
         \<and> localStorageService_getGames (snd (localStorageService_updateGame b i updates))
             = Inr (gs[k := spread (gs ! k) updates (toISOString (clock b (reads b)))])))
   \<and> title (spread g updates stamp)
        = (case title_upd updates of None \<Rightarrow> title g | Some v \<Rightarrow> v)
   \<and> description (spread g updates stamp)
        = (case description_upd updates of None \<Rightarrow> description g | Some v \<Rightarrow> v)
   \<and> category (spread g updates stamp)
        = (case category_upd updates of None \<Rightarrow> category g | Some v \<Rightarrow> v)
   \<and> color (spread g updates stamp)
        = (case color_upd updates of None \<Rightarrow> color g | Some v \<Rightarrow> v)
   \<and> url (spread g updates stamp) = (case url_upd updates of None \<Rightarrow> url g | Some v \<Rightarrow> v)
   \<and> id' (spread g updates stamp) = id' g
   \<and> created_at (spread g updates stamp) = created_at g
   \<and> updated_at (spread g updates stamp) = stamp
   \<and> (error (update_game sb i updates (toISOString (clock b (reads b)))) \<noteq> None \<longrightarrow>
        snd (fst (gameService_updateGame sb b i updates)) = None)
   \<and> (error (update_game sb i updates (toISOString (clock b (reads b)))) = None \<longrightarrow>
        snd (fst (gameService_updateGame sb b i updates))
          = data (update_game sb i updates (toISOString (clock b (reads b)))))"
proof -
  have missing: "i \<notin> id' ` set gs \<Longrightarrow> localStorageService_updateGame b i updates = (Inr None, b)"
    by (rule updateGame_missing [OF assms])
  have found: "\<exists>k. findIndex (\<lambda>g. id' g = i) gs = Some k
         \<and> fst (localStorageService_updateGame b i updates)
             = Inr (Some (spread (gs ! k) updates (toISOString (clock b (reads b)))))
         \<and> localStorageService_getGames (snd (localStorageService_updateGame b i updates))
             = Inr (gs[k := spread (gs ! k) updates (toISOString (clock b (reads b)))])"
    if "i \<in> id' ` set gs" and w: "\<not> refuses b (writes b)" "\<not> refuses b (Suc (writes b))"
  proof -
    from findIndex_present [OF that(1)] obtain k
      where k: "findIndex (\<lambda>g. id' g = i) gs = Some k" ..
    show ?thesis using k by (simp add: updateGame_found [OF assms k w])
  qed
  have remote_err:
    "error (update_game sb i updates (toISOString (clock b (reads b)))) \<noteq> None \<Longrightarrow>
        snd (fst (gameService_updateGame sb b i updates)) = None"
    by (auto simp: gameService_updateGame_def Date_now_def Let_def)
  have remote_ok:
    "error (update_game sb i updates (toISOString (clock b (reads b)))) = None \<Longrightarrow>
        snd (fst (gameService_updateGame sb b i updates))
          = data (update_game sb i updates (toISOString (clock b (reads b))))"
    by (simp add: gameService_updateGame_def Date_now_def Let_def)
  show ?thesis
    using missing found remote_err remote_ok
    by (simp add: spread_fields)
qed

text \<open>
  C7 at a concrete input. Two records are created while the clock reads the same
  millisecond, so both carry the id \<open>1700000000000\<close>. Deleting that id returns true and
  leaves no record with the id, and the size falls from two to zero, not by one.
\<close>

theorem delete_duplicated_id:
  "map_sum id length (localStorageService_getGames added_twice) = Inr 2
   \<and> map_sum id (map id') (localStorageService_getGames added_twice)
       = Inr [toString 1700000000000, toString 1700000000000]
   \<and> fst (localStorageService_deleteGame added_twice (toString 1700000000000)) = Inr True
   \<and> localStorageService_getGames
        (snd (localStorageService_deleteGame added_twice (toString 1700000000000))) = Inr []
   \<and> map_sum id length (localStorageService_getGames
        (snd (localStorageService_deleteGame added_twice (toString 1700000000000)))) = Inr 0"
  by (simp add: added_twice_games deleteGame_result [OF added_twice_games added_twice_facts])



text \<open>
  C9: when acquiring the hosted store fails, that is, when loading its module throws (a
  missing variable, or a throwing \<open>createClient\<close>), the component marks the hosted store
  as not connected, selects the local store and displays the list it reads from it. From
  then on, at every point of every session:
  \<^item> the selected store is the local one and the mark stays;
  \<^item> a create, an update, a delete and a list of the component are the local store's
    operations on the browser's storage: the storage after the handler is the storage
    after \<open>localStorageService\<close>'s function, and the display shows its result;
  \<^item> the session does not depend on the hosted backend's answers, which are never asked
    for.

  In general a session never changes the store that is selected.
\<close>

theorem fallback_is_final:
  assumes "import_supabase env createClient = Inl err"
  shows "\<not> isSupabaseConnected (mount env createClient sb b)
   \<and> getGameService (mount env createClient sb b) = LocalStorageService
   \<and> (localStorageService_getGames b = Inr fetched \<longrightarrow>
        games (mount env createClient sb b) = fetched
        \<and> lastGameCount (mount env createClient sb b) = length fetched)
   \<and> getGameService (fst (run evs (mount env createClient sb b, b))) = LocalStorageService
   \<and> \<not> isSupabaseConnected (fst (run evs (mount env createClient sb b, b)))
   \<and> (title g \<noteq> [] \<and> url g \<noteq> [] \<longrightarrow>
        snd (step (AddGame sb' g) (run evs (mount env createClient sb b, b)))
          = snd (localStorageService_addGame (snd (run evs (mount env createClient sb b, b))) g)
        \<and> (fst (localStorageService_addGame
                  (snd (run evs (mount env createClient sb b, b))) g) = Inr (Some a)
             \<longrightarrow> games (fst (step (AddGame sb' g) (run evs (mount env createClient sb b, b))))
                   = a # games (fst (run evs (mount env createClient sb b, b))))
        \<and> snd (step (UpdateGame sb' (Some e) g) (run evs (mount env createClient sb b, b)))
          = snd (localStorageService_updateGame
                   (snd (run evs (mount env createClient sb b, b))) (id' e) (all_fields g))
        \<and> (fst (localStorageService_updateGame
                  (snd (run evs (mount env createClient sb b, b))) (id' e) (all_fields g))
               = Inr (Some u)
             \<longrightarrow> games (fst (step (UpdateGame sb' (Some e) g)
                                 (run evs (mount env createClient sb b, b))))
                   = map (\<lambda>game. if id' game = id' e then u else game)
                       (games (fst (run evs (mount env createClient sb b, b))))))
   \<and> snd (step (DeleteGame sb' True i) (run evs (mount env createClient sb b, b)))
       = snd (localStorageService_deleteGame (snd (run evs (mount env createClient sb b, b))) i)
   \<and> (fst (localStorageService_deleteGame (snd (run evs (mount env createClient sb b, b))) i)
          = Inr True
        \<longrightarrow> games (fst (step (DeleteGame sb' True i)
                            (run evs (mount env createClient sb b, b))))
              = filter (\<lambda>game. id' game \<noteq> i)
                  (games (fst (run evs (mount env createClient sb b, b)))))
   \<and> (localStorageService_getGames (snd (run evs (mount env createClient sb b, b))) = Inr gs
        \<longrightarrow> games (fst (step (ReloadGames sb') (run evs (mount env createClient sb b, b))))
              = gs)
   \<and> run (map (with_backend sb') evs) (mount env createClient sb b, b)
       = run evs (mount env createClient sb b, b)
   \<and> getGameService (fst (run evs st)) = getGameService (fst st)"
proof -
  let ?start = "(mount env createClient sb b, b)"
  let ?now = "run evs ?start"
  have m: "gameService (fst ?start) = None" "subscription (fst ?start) = None"
    "\<not> isSupabaseConnected (fst ?start)"
    by (simp_all add: mount_fallback_fields [OF assms])
  have r: "gameService (fst ?now) = None" "\<not> isSupabaseConnected (fst ?now)"
    using run_frame [of evs ?start] m by simp_all
  have first: "games (mount env createClient sb b) = fetched
        \<and> lastGameCount (mount env createClient sb b) = length fetched"
    if "localStorageService_getGames b = Inr fetched"
    using that by (simp add: mount_fallback [OF assms])
  have i: "run (map (with_backend sb') evs) ?start = ?now"
    by (rule local_run_ignores_backend [OF m(1) m(2)])
  have sel: "getGameService (fst (run evs st)) = getGameService (fst st)"
    using run_frame [of evs st] by (simp add: getGameService_def)
  have l: "games (fst (step (ReloadGames sb') ?now)) = gs"
    if "localStorageService_getGames (snd ?now) = Inr gs"
    by (rule local_list [OF r(1) that])
  have c: "snd (step (AddGame sb' g) ?now) = snd (localStorageService_addGame (snd ?now) g)
        \<and> (fst (localStorageService_addGame (snd ?now) g) = Inr (Some a)
             \<longrightarrow> games (fst (step (AddGame sb' g) ?now)) = a # games (fst ?now))"
    if "title g \<noteq> []" "url g \<noteq> []"
    using local_create [OF r(1) that, of sb'] by blast
  have u: "snd (step (UpdateGame sb' (Some e) g) ?now)
          = snd (localStorageService_updateGame (snd ?now) (id' e) (all_fields g))
        \<and> (fst (localStorageService_updateGame (snd ?now) (id' e) (all_fields g)) = Inr (Some u)
             \<longrightarrow> games (fst (step (UpdateGame sb' (Some e) g) ?now))
                   = map (\<lambda>game. if id' game = id' e then u else game) (games (fst ?now)))"
    if "title g \<noteq> []" "url g \<noteq> []"
    using local_update [OF r(1) that, of sb' e] by blast
  have d: "snd (step (DeleteGame sb' True i) ?now) = snd (localStorageService_deleteGame (snd ?now) i)
        \<and> (fst (localStorageService_deleteGame (snd ?now) i) = Inr True
             \<longrightarrow> games (fst (step (DeleteGame sb' True i) ?now))
                   = filter (\<lambda>game. id' game \<noteq> i) (games (fst ?now)))"
    using local_delete [OF r(1), of sb' i] by blast
  have a1: "\<not> isSupabaseConnected (mount env createClient sb b)"
    and a2: "getGameService (mount env createClient sb b) = LocalStorageService"
    and a3: "getGameService (fst ?now) = LocalStorageService"
    using m r by (simp_all add: getGameService_def)
  from a1 a2 first a3 r(2) c u d l i sel show ?thesis by blast
qed

theorem fallback_is_final_witness:
  "import_supabase unconfigured accepting = Inl ''Missing Supabase environment variables''
   \<and> \<not> isSupabaseConnected (fst mounted_local)
   \<and> getGameService (fst mounted_local) = LocalStorageService
   \<and> games (fst mounted_local) = []
   \<and> getGameService (fst (run session mounted_local)) = LocalStorageService
   \<and> \<not> isSupabaseConnected (fst (run session mounted_local))
   \<and> snd (step (AddGame (failing []) pong) (run session mounted_local))
       = snd (localStorageService_addGame (snd (run session mounted_local)) pong)
   \<and> run (map (with_backend (failing [])) session) mounted_local = run session mounted_local
   \<and> snd (step (AddGame (failing []) maze) mounted_local) = ticked_once
   \<and> localStorageService_getGames (snd (step (AddGame (failing []) maze) mounted_local))
       = Inr [\<lparr>title = ''Maze'', description = [], category = ''Puzzle'', color = ''c1'',
           url = ''https://x/maze'', id' = ''1000'', created_at = toISOString 1001,
           updated_at = toISOString 1002\<rparr>]
   \<and> games (fst (step (AddGame (failing []) maze) mounted_local))
       = [\<lparr>title = ''Maze'', description = [], category = ''Puzzle'', color = ''c1'',
           url = ''https://x/maze'', id' = ''1000'', created_at = toISOString 1001,
           updated_at = toISOString 1002\<rparr>]"
proof -
  have h: "import_supabase unconfigured accepting = Inl ''Missing Supabase environment variables''"
    by (simp add: import_supabase_def unconfigured_def falsy_def)
  have p: "title pong \<noteq> []" "url pong \<noteq> []" "title maze \<noteq> []" "url maze \<noteq> []"
    by (simp_all add: pong_def maze_def)
  have t: "localStorageService_addGame ticking maze
     = (Inr (Some \<lparr>title = ''Maze'', description = [], category = ''Puzzle'', color = ''c1'',
           url = ''https://x/maze'', id' = ''1000'', created_at = toISOString 1001,
           updated_at = toISOString 1002\<rparr>), ticked_once)"
    unfolding addGame_result [OF ticking_games ticking_facts] ticked_once_eq
    by (simp add: ticking_def maze_def toString_1000)
  have g0: "games (fst mounted_local) = []"
    by (simp add: mounted_local_def mount_fallback [OF h] ticking_games)
  from fallback_is_final [OF h, where b = ticking and sb = "serving [maze_row]"
      and evs = session and g = pong and sb' = "failing []" and st = mounted_local]
    fallback_is_final [OF h, where b = ticking and sb = "serving [maze_row]"
      and evs = "[]" and g = maze and sb' = "failing []" and st = mounted_local
      and fetched = "[]"
      and a = "\<lparr>title = ''Maze'', description = [], category = ''Puzzle'', color = ''c1'',
           url = ''https://x/maze'', id' = ''1000'', created_at = toISOString 1001,
           updated_at = toISOString 1002\<rparr>"]
    h p t g0 ticked_once_games ticking_games
  show ?thesis by (simp add: mounted_local_def)
qed

text \<open>
  C10 at a concrete input. Two records are created while the clock reads the same
  millisecond: the stored collection then holds two different records with the same id.
\<close>

theorem same_ms_ids_collide:
  "map_sum id (map id') (localStorageService_getGames added_twice)
     = Inr [toString 1700000000000, toString 1700000000000]
   \<and> map_sum id (map title) (localStorageService_getGames added_twice)
       = Inr [''Pong'', ''Maze'']
   \<and> map_sum id (distinct \<circ> map id') (localStorageService_getGames added_twice) = Inr False"
  by (simp add: added_twice_games)

end
